theory Spec2Isabelle
  imports Complex_Main
begin

section \<open>LibWoofer: statistics, play history and the song chooser\<close>

text \<open>
  A shallow embedding of three modules of LibWoofer: \<^verbatim>\<open>statistics.c\<close>,
  \<^verbatim>\<open>song_manager.c\<close> and \<^verbatim>\<open>intelligence.c\<close> (with the getters of
  \<^verbatim>\<open>song.c\<close>, \<^verbatim>\<open>dlist.c\<close> and \<^verbatim>\<open>utils.c\<close> they call).

  Conventions of the embedding.
  \<^item> A \<^verbatim>\<open>gint\<close>, \<^verbatim>\<open>gint64\<close> or \<^verbatim>\<open>guint\<close> is an \<open>int\<close> (a \<^verbatim>\<open>guint32\<close>
    hash a \<open>nat\<close>): the arithmetic of the source is read inside the range of its C type,
    where signed overflow (undefined in C) does not occur. The one sum that leaves this
    range for libraries of a few thousand songs, \<^verbatim>\<open>full_sum\<close> of
    \<^verbatim>\<open>wf_intelligence_calculate_song_entries\<close>, wraps around at 32 bits
    (\<open>gint_wrap\<close>), as the compiled code does.
  \<^item> A \<^verbatim>\<open>gdouble\<close> is a \<open>real\<close>: comparisons, sums, products and quotients are the
    exact ones. The conversion of a double to a \<^verbatim>\<open>gint\<close> truncates towards zero
    (\<open>gint_of_gdouble\<close>).
  \<^item> A \<^verbatim>\<open>WfSong *\<close> is a \<open>song_ptr\<close>; the objects live in a store
    \<open>song_ptr \<rightharpoonup> WfSongPrivate\<close>. \<^verbatim>\<open>WF_IS_SONG(song)\<close> holds exactly for the pointers
    in the domain of the store. The element of a \<^verbatim>\<open>GList\<close> of songs is never
    \<^verbatim>\<open>NULL\<close>.
  \<^item> A \<^verbatim>\<open>GList *\<close> is a list; \<^verbatim>\<open>NULL\<close> is the empty list.
  \<^item> The clock (\<^verbatim>\<open>wf_utils_time_now\<close>), the random generator (\<^verbatim>\<open>g_rand_int\<close>),
    the settings read by \<^verbatim>\<open>wf_settings_static_get_double\<close> and the incognito flag
    read by \<^verbatim>\<open>wf_song_manager_get_incognito\<close> are arguments of the functions that
    read them.
  \<^item> Logging, reference counts and the writes of the library file are left out.
\<close>

subsection \<open>Songs (song.c)\<close>

type_synonym song_ptr = nat

datatype WfSongStatus =
  WF_SONG_STATUS_UNKNOWN | WF_SONG_AVAILABLE | WF_SONG_PLAYING | WF_SONG_NOT_FOUND

record WfSongPrivate =
  uri :: "string option"
  artist_hash :: nat
  album_artist_hash :: nat
  status :: WfSongStatus
  rating :: int
  score :: real
  playcount :: int
  skipcount :: int
  lastplayed :: int

type_synonym song_store = "song_ptr \<rightharpoonup> WfSongPrivate"

definition song_artist_hash :: "WfSongPrivate \<Rightarrow> nat" where
  "song_artist_hash sg =
     (if album_artist_hash sg \<noteq> 0 then album_artist_hash sg else artist_hash sg)"

definition wf_song_get_artist_hash :: "song_store \<Rightarrow> song_ptr \<Rightarrow> nat" where
  "wf_song_get_artist_hash st song =
     (case st song of None \<Rightarrow> 0 | Some sg \<Rightarrow> song_artist_hash sg)"

definition wf_song_get_status :: "song_store \<Rightarrow> song_ptr \<Rightarrow> WfSongStatus" where
  "wf_song_get_status st song =
     (case st song of None \<Rightarrow> WF_SONG_STATUS_UNKNOWN | Some sg \<Rightarrow> status sg)"

definition wf_song_get_rating :: "song_store \<Rightarrow> song_ptr \<Rightarrow> int" where
  "wf_song_get_rating st song = (case st song of None \<Rightarrow> 0 | Some sg \<Rightarrow> rating sg)"

definition wf_song_get_score :: "song_store \<Rightarrow> song_ptr \<Rightarrow> real" where
  "wf_song_get_score st song = (case st song of None \<Rightarrow> 0 | Some sg \<Rightarrow> score sg)"

definition wf_song_get_play_count :: "song_store \<Rightarrow> song_ptr \<Rightarrow> int" where
  "wf_song_get_play_count st song = (case st song of None \<Rightarrow> 0 | Some sg \<Rightarrow> playcount sg)"

definition wf_song_get_skip_count :: "song_store \<Rightarrow> song_ptr \<Rightarrow> int" where
  "wf_song_get_skip_count st song = (case st song of None \<Rightarrow> 0 | Some sg \<Rightarrow> skipcount sg)"

definition wf_song_get_last_played :: "song_store \<Rightarrow> song_ptr \<Rightarrow> int" where
  "wf_song_get_last_played st song = (case st song of None \<Rightarrow> 0 | Some sg \<Rightarrow> lastplayed sg)"

definition wf_song_is_valid :: "song_store \<Rightarrow> song_ptr \<Rightarrow> bool" where
  "wf_song_is_valid st song = (case st song of None \<Rightarrow> False | Some sg \<Rightarrow> uri sg \<noteq> None)"

subsection \<open>Statistics (statistics.c)\<close>

definition STAT_RATING_MIN :: int where "STAT_RATING_MIN = 0"
definition STAT_RATING_MAX :: int where "STAT_RATING_MAX = 100"
definition STAT_SCORE_MIN :: real where "STAT_SCORE_MIN = 0"
definition STAT_SCORE_MAX :: real where "STAT_SCORE_MAX = 100"
definition STAT_PLAYCOUNT_MIN :: int where "STAT_PLAYCOUNT_MIN = 0"
definition STAT_SKIPCOUNT_MIN :: int where "STAT_SKIPCOUNT_MIN = 0"
definition STAT_LASTPLAYED_MIN :: int where "STAT_LASTPLAYED_MIN = 0"

definition wf_stats_rating_is_valid :: "int \<Rightarrow> bool" where
  "wf_stats_rating_is_valid r = (r \<ge> STAT_RATING_MIN \<and> r \<le> STAT_RATING_MAX)"

definition wf_stats_score_is_valid :: "real \<Rightarrow> bool" where
  "wf_stats_score_is_valid s = (s \<ge> STAT_SCORE_MIN \<and> s \<le> STAT_SCORE_MAX)"

definition wf_stats_playcount_is_valid :: "int \<Rightarrow> bool" where
  "wf_stats_playcount_is_valid n = (n \<ge> STAT_PLAYCOUNT_MIN)"

definition wf_stats_skipcount_is_valid :: "int \<Rightarrow> bool" where
  "wf_stats_skipcount_is_valid n = (n \<ge> STAT_SKIPCOUNT_MIN)"

definition wf_stats_lastplayed_is_valid :: "int \<Rightarrow> bool" where
  "wf_stats_lastplayed_is_valid t = (t \<ge> STAT_LASTPLAYED_MIN)"

definition wf_stats_rating_invert :: "int \<Rightarrow> int" where
  "wf_stats_rating_invert r =
     (if \<not> wf_stats_rating_is_valid r then 0
      else if r = 0 then 0
      else (STAT_RATING_MAX - r) + STAT_RATING_MIN)"

definition wf_stats_score_invert :: "real \<Rightarrow> real" where
  "wf_stats_score_invert s =
     (if \<not> wf_stats_score_is_valid s then 0
      else (STAT_SCORE_MAX - s) + STAT_SCORE_MIN)"

text \<open>The settings the statistics read (the entries of \<^verbatim>\<open>settings.c\<close>).\<close>

record WfSettings =
  min_played_fraction :: real
  full_played_fraction :: real

text \<open>The macro \<^verbatim>\<open>CLAMP(x, low, high)\<close> of GLib.\<close>

definition CLAMP :: "real \<Rightarrow> real \<Rightarrow> real \<Rightarrow> real" where
  "CLAMP x low high = (if x > high then high else if x < low then low else x)"

definition wf_stats_update_rating :: "WfSongPrivate \<Rightarrow> int \<Rightarrow> int \<Rightarrow> WfSongPrivate" where
  "wf_stats_update_rating song new_rating increase =
     (if new_rating = - 1 then song\<lparr>rating := 0\<rparr>
      else if new_rating \<noteq> 0 \<and> new_rating \<ge> STAT_RATING_MIN \<and> new_rating \<le> STAT_RATING_MAX
        then song\<lparr>rating := new_rating\<rparr>
      else if increase \<ge> - 1 * STAT_RATING_MAX \<and> increase \<le> STAT_RATING_MAX then
        (let rating_value = rating song + increase in
         if rating_value \<le> STAT_RATING_MIN then song
         else if rating_value > STAT_RATING_MAX then song
         else song\<lparr>rating := rating_value\<rparr>)
      else song)"

definition wf_stats_update_score :: "WfSongPrivate \<Rightarrow> real \<Rightarrow> real \<Rightarrow> WfSongPrivate" where
  "wf_stats_update_score song new_score increase =
     (if new_score = - 1 then song\<lparr>score := 0\<rparr>
      else if new_score \<noteq> 0 \<and> new_score \<ge> STAT_SCORE_MIN \<and> new_score \<le> STAT_SCORE_MAX
        then song\<lparr>score := new_score\<rparr>
      else if increase \<ge> - 1 * STAT_SCORE_MAX \<and> increase \<le> STAT_SCORE_MAX then
        (let score_value = score song + increase in
         if score_value < STAT_SCORE_MIN then song
         else if score_value > STAT_SCORE_MAX then song
         else song\<lparr>score := score_value\<rparr>)
      else song)"

definition wf_stats_update_playcount :: "WfSongPrivate \<Rightarrow> int \<Rightarrow> int \<Rightarrow> WfSongPrivate" where
  "wf_stats_update_playcount song new_playcount increase =
     (if new_playcount = - 1 then song\<lparr>playcount := 0\<rparr>
      else if increase = 0 then song\<lparr>playcount := new_playcount\<rparr>
      else
        (let playcount_value = playcount song + increase in
         if playcount_value < STAT_PLAYCOUNT_MIN then song
         else song\<lparr>playcount := playcount_value\<rparr>))"

definition wf_stats_update_skipcount :: "WfSongPrivate \<Rightarrow> int \<Rightarrow> int \<Rightarrow> WfSongPrivate" where
  "wf_stats_update_skipcount song new_skipcount increase =
     (if new_skipcount = - 1 then song\<lparr>skipcount := 0\<rparr>
      else if increase = 0 then song\<lparr>skipcount := new_skipcount\<rparr>
      else
        (let skipcount_value = skipcount song + increase in
         if skipcount_value < STAT_SKIPCOUNT_MIN then song
         else song\<lparr>skipcount := skipcount_value\<rparr>))"

definition wf_stats_update_lastplayed :: "WfSongPrivate \<Rightarrow> int \<Rightarrow> int \<Rightarrow> WfSongPrivate" where
  "wf_stats_update_lastplayed song new_lastplayed increase =
     (if new_lastplayed = - 1 then song\<lparr>lastplayed := 0\<rparr>
      else if new_lastplayed \<ge> 0 then song\<lparr>lastplayed := new_lastplayed\<rparr>
      else
        (let lastplayed_value = lastplayed song + increase in
         if lastplayed_value \<le> STAT_LASTPLAYED_MIN then song
         else song\<lparr>lastplayed := lastplayed_value\<rparr>))"

text \<open>
  \<^verbatim>\<open>wf_stats_modify_and_update_score\<close>. The fraction is replaced by \<open>1\<close> only inside
  the branch \<^verbatim>\<open>else if (played_fraction >= 1.0)\<close>, as the source has it.
\<close>

definition wf_stats_modify_and_update_score ::
  "bool \<Rightarrow> WfSettings \<Rightarrow> WfSongPrivate \<Rightarrow> real \<Rightarrow> WfSongPrivate" where
  "wf_stats_modify_and_update_score incognito_on sett song played_fraction =
     (if incognito_on then song
      else if played_fraction < 0 \<or> played_fraction > 1 then song
      else
        (let fraction =
               (if played_fraction \<ge> 1 then
                  (if played_fraction \<ge> full_played_fraction sett then 1 else played_fraction)
                else played_fraction);
             count = playcount song;
             old_score = score song
         in if old_score < STAT_SCORE_MIN \<or> old_score > STAT_SCORE_MAX then song
            else
              (let new_score =
                     (if count \<le> STAT_PLAYCOUNT_MIN then (old_score + fraction * 100) / 2
                      else ((old_score * real_of_int count) + fraction * 100)
                             / real_of_int (count + 1))
               in wf_stats_update_score song (CLAMP new_score 0 100) 0)))"

definition wf_stats_modify_and_update_playcount ::
  "bool \<Rightarrow> WfSettings \<Rightarrow> WfSongPrivate \<Rightarrow> real \<Rightarrow> bool \<Rightarrow> WfSongPrivate" where
  "wf_stats_modify_and_update_playcount incognito_on sett song played_fraction decrease =
     (if incognito_on then song
      else if played_fraction < min_played_fraction sett then song
      else if decrease then wf_stats_update_playcount song 0 (- 1)
      else wf_stats_update_playcount song 0 1)"

definition wf_stats_modify_and_update_skipcount ::
  "bool \<Rightarrow> WfSettings \<Rightarrow> WfSongPrivate \<Rightarrow> real \<Rightarrow> bool \<Rightarrow> WfSongPrivate" where
  "wf_stats_modify_and_update_skipcount incognito_on sett song played_fraction decrease =
     (if incognito_on then song
      else if played_fraction > full_played_fraction sett then song
      else if decrease then wf_stats_update_skipcount song 0 (- 1)
      else wf_stats_update_skipcount song 0 1)"

definition wf_stats_modify_and_update_lastplayed ::
  "bool \<Rightarrow> WfSettings \<Rightarrow> int \<Rightarrow> WfSongPrivate \<Rightarrow> real \<Rightarrow> int \<Rightarrow> WfSongPrivate" where
  "wf_stats_modify_and_update_lastplayed incognito_on sett time_now song played_fraction time =
     (if incognito_on then song
      else if played_fraction < min_played_fraction sett then song
      else if time = 0 then wf_stats_update_lastplayed song time_now 0
      else wf_stats_update_lastplayed song time 0)"

subsection \<open>The song manager (song_manager.c)\<close>

record WfSongManagerDetails =
  active :: bool
  current :: "song_ptr option"
  list_previous :: "song_ptr list"
  list_next :: "song_ptr list"
  list_queue :: "song_ptr list"
  artists :: "nat list"
  incognito :: bool

text \<open>
  The state of the program that the song manager reads and writes: its own static
  \<^verbatim>\<open>SongManagerData\<close>, the song objects and the settings.
\<close>

record WfState =
  manager :: WfSongManagerDetails
  songs :: song_store
  settings :: WfSettings

definition wf_song_manager_get_incognito :: "WfState \<Rightarrow> bool" where
  "wf_song_manager_get_incognito w = incognito (manager w)"

definition wf_song_manager_add_prev_song :: "WfState \<Rightarrow> song_ptr \<Rightarrow> WfState" where
  "wf_song_manager_add_prev_song w song =
     (if songs w song = None then w
      else w\<lparr>manager := (manager w)\<lparr>list_previous := song # list_previous (manager w)\<rparr>\<rparr>)"

definition wf_song_manager_add_recent_artist :: "nat list \<Rightarrow> nat \<Rightarrow> nat list" where
  "wf_song_manager_add_recent_artist list artist =
     (if artist \<noteq> 0 then artist # list else [])"

definition wf_song_manager_song_is_playing :: "WfState \<Rightarrow> song_ptr \<Rightarrow> WfState" where
  "wf_song_manager_song_is_playing w song =
     (if songs w song = None then w
      else w\<lparr>manager := (manager w)\<lparr>current := Some song\<rparr>\<rparr>)"

text \<open>
  The four statistics updates of \<^verbatim>\<open>wf_song_manager_add_played_song\<close>, on the song
  object; each wrapper reads the incognito flag again.
\<close>

definition add_played_song_update_statistics ::
  "bool \<Rightarrow> WfSettings \<Rightarrow> int \<Rightarrow> WfSongPrivate \<Rightarrow> real \<Rightarrow> bool \<Rightarrow> WfSongPrivate" where
  "add_played_song_update_statistics incognito_on sett time_now sg played_fraction skip_score_update =
     (let sg1 = (if \<not> skip_score_update
                 then wf_stats_modify_and_update_score incognito_on sett sg played_fraction
                 else sg);
          sg2 = wf_stats_modify_and_update_playcount incognito_on sett sg1 played_fraction False;
          sg3 = wf_stats_modify_and_update_skipcount incognito_on sett sg2 played_fraction False
      in wf_stats_modify_and_update_lastplayed incognito_on sett time_now sg3 played_fraction 0)"

definition wf_song_manager_add_played_song ::
  "WfState \<Rightarrow> int \<Rightarrow> song_ptr \<Rightarrow> real \<Rightarrow> bool \<Rightarrow> WfState" where
  "wf_song_manager_add_played_song w time_now song played_fraction skip_score_update =
     (case songs w song of
        None \<Rightarrow> w
      | Some sg \<Rightarrow>
          if \<not> (played_fraction \<ge> 0 \<and> played_fraction \<le> 1) then w
          else
            (let w1 = wf_song_manager_add_prev_song w song;
                 artist = wf_song_get_artist_hash (songs w1) song;
                 w2 = w1\<lparr>manager := (manager w1)
                        \<lparr>artists := wf_song_manager_add_recent_artist (artists (manager w1)) artist\<rparr>\<rparr>;
                 w3 = (if \<not> incognito (manager w2)
                       then w2\<lparr>songs := (songs w2)(song \<mapsto>
                              add_played_song_update_statistics (wf_song_manager_get_incognito w2)
                                (settings w2) time_now sg played_fraction skip_score_update)\<rparr>
                       else w2)
             in w3\<lparr>manager := (manager w3)\<lparr>current := None\<rparr>\<rparr>))"

text \<open>
  \<^verbatim>\<open>g_list_nth\<close>: a node of a list is its position, \<^verbatim>\<open>NULL\<close> is \<open>None\<close>;
  the head of the list is the node \<open>0\<close>.
\<close>

definition g_list_nth :: "'a list \<Rightarrow> nat \<Rightarrow> nat option" where
  "g_list_nth list n = (if n < length list then Some n else None)"

text \<open>
  \<^verbatim>\<open>wf_song_manager_trim_list_length\<close>: the list is cut after \<^verbatim>\<open>last_node\<close>, and
  the nodes behind it are freed. The test \<^verbatim>\<open>list == last_node\<close> compares the head
  with the node found.
\<close>

definition wf_song_manager_trim_list_length :: "'a list \<Rightarrow> nat \<Rightarrow> 'a list" where
  "wf_song_manager_trim_list_length list limit =
     (if list = [] \<or> limit = 0 then list
      else
        (case g_list_nth list (limit - 1) of
           None \<Rightarrow> list
         | Some last_node \<Rightarrow>
             if last_node = 0 then list
             else take (Suc last_node) list))"


subsection \<open>The filter of the song chooser (intelligence.c)\<close>

record WfSongFilter =
  recent_artists :: int
  remove_recents_amount :: int
  remove_recents_percentage :: real
  use_rating :: bool
  use_score :: bool
  use_playcount :: bool
  use_skipcount :: bool
  use_lastplayed :: bool
  rating_inc_zero :: bool
  playcount_invert :: bool
  skipcount_invert :: bool
  lastplayed_invert :: bool
  rating_min :: int
  rating_max :: int
  score_min :: int
  score_max :: int
  playcount_th :: int
  skipcount_th :: int
  lastplayed_th :: int

text \<open>The cast of a \<^verbatim>\<open>gdouble\<close> to a \<^verbatim>\<open>gint\<close>: the fraction is dropped.\<close>

definition gint_of_gdouble :: "real \<Rightarrow> int" where
  "gint_of_gdouble d = (if d \<ge> 0 then \<lfloor>d\<rfloor> else \<lceil>d\<rceil>)"

definition wf_utils_time_compare :: "int \<Rightarrow> int \<Rightarrow> int" where
  "wf_utils_time_compare time_first time_last = \<bar>time_last - time_first\<bar>"

text \<open>
  \<^verbatim>\<open>wf_intelligence_remove_invalid_songs\<close>: the loop visits the nodes of the list
  it was given, and \<^verbatim>\<open>g_list_remove\<close> takes the first node with that song out of
  the library.
\<close>

fun remove_invalid_songs_loop :: "song_store \<Rightarrow> song_ptr list \<Rightarrow> song_ptr list \<Rightarrow> song_ptr list" where
  "remove_invalid_songs_loop st [] library = library"
| "remove_invalid_songs_loop st (song # next) library =
     remove_invalid_songs_loop st next
       (if wf_song_get_status st song \<noteq> WF_SONG_AVAILABLE then remove1 song library else library)"

definition wf_intelligence_remove_invalid_songs :: "song_store \<Rightarrow> song_ptr list \<Rightarrow> song_ptr list" where
  "wf_intelligence_remove_invalid_songs st library =
     (if library = [] then [] else remove_invalid_songs_loop st library library)"

text \<open>
  The inner loop of \<^verbatim>\<open>wf_intelligence_remove_songs_with_artists\<close>: does one of the
  first \<open>amount\<close> recent artists equal the artist of the song? \<open>x\<close> counts the
  artists checked.
\<close>

fun artist_is_recent :: "nat \<Rightarrow> nat list \<Rightarrow> int \<Rightarrow> int \<Rightarrow> bool" where
  "artist_is_recent artist [] x amount = False"
| "artist_is_recent artist (hash # list) x amount =
     (if x \<ge> amount then False
      else if artist = hash then True
      else artist_is_recent artist list (x + 1) amount)"

fun remove_songs_with_artists_loop ::
  "song_store \<Rightarrow> nat list \<Rightarrow> int \<Rightarrow> song_ptr list \<Rightarrow> song_ptr list \<Rightarrow> song_ptr list" where
  "remove_songs_with_artists_loop st artist_list amount [] library = library"
| "remove_songs_with_artists_loop st artist_list amount (song # next) library =
     remove_songs_with_artists_loop st artist_list amount next
       (let artist = wf_song_get_artist_hash st song in
        if artist \<noteq> 0 \<and> artist_is_recent artist artist_list 0 amount
        then remove1 song library else library)"

definition wf_intelligence_remove_songs_with_artists ::
  "song_store \<Rightarrow> song_ptr list \<Rightarrow> nat list \<Rightarrow> int \<Rightarrow> song_ptr list" where
  "wf_intelligence_remove_songs_with_artists st library artist_list amount =
     (if library = [] \<or> artist_list = [] then library
      else remove_songs_with_artists_loop st artist_list amount library library)"

definition wf_intelligence_use_rating_filter :: "bool \<Rightarrow> int \<Rightarrow> int \<Rightarrow> bool" where
  "wf_intelligence_use_rating_filter use r_min r_max =
     (if \<not> use \<or> r_min \<le> 0 \<or> r_max \<le> 0 then False
      else wf_stats_rating_is_valid r_min \<and> wf_stats_rating_is_valid r_max)"

definition wf_intelligence_use_score_filter :: "bool \<Rightarrow> real \<Rightarrow> real \<Rightarrow> bool" where
  "wf_intelligence_use_score_filter use s_min s_max =
     (if \<not> use \<or> s_min \<le> 0 \<or> s_max \<le> 0 then False
      else wf_stats_score_is_valid s_min \<and> wf_stats_score_is_valid s_max)"

definition wf_intelligence_use_playcount_filter :: "bool \<Rightarrow> int \<Rightarrow> bool" where
  "wf_intelligence_use_playcount_filter use th =
     (if \<not> use \<or> th \<le> 0 then False else wf_stats_playcount_is_valid th)"

definition wf_intelligence_use_skipcount_filter :: "bool \<Rightarrow> int \<Rightarrow> bool" where
  "wf_intelligence_use_skipcount_filter use th =
     (if \<not> use \<or> th \<le> 0 then False else wf_stats_skipcount_is_valid th)"

definition wf_intelligence_use_lastplayed_filter :: "bool \<Rightarrow> int \<Rightarrow> bool" where
  "wf_intelligence_use_lastplayed_filter use th =
     (if \<not> use \<or> th \<le> 0 then False else wf_stats_lastplayed_is_valid th)"

text \<open>
  The body of the loop of \<^verbatim>\<open>wf_intelligence_filter_by_stats\<close> for one item: the
  value of \<^verbatim>\<open>filtered\<close> after the five checks, each of which runs only while the
  flag is still unset.
\<close>

definition filter_by_stats_filtered :: "song_store \<Rightarrow> int \<Rightarrow> WfSongFilter \<Rightarrow> song_ptr \<Rightarrow> bool" where
  "filter_by_stats_filtered st time f song =
     (let rating_on = wf_intelligence_use_rating_filter (use_rating f) (rating_min f) (rating_max f);
          score_on = wf_intelligence_use_score_filter (use_score f)
                       (real_of_int (score_min f)) (real_of_int (score_max f));
          playcount_on = wf_intelligence_use_playcount_filter (use_playcount f) (playcount_th f);
          skipcount_on = wf_intelligence_use_skipcount_filter (use_skipcount f) (skipcount_th f);
          lastplayed_on = wf_intelligence_use_lastplayed_filter (use_lastplayed f) (lastplayed_th f);
          filtered0 = False;
          filtered1 =
            (if rating_on \<and> \<not> filtered0 then
               (let rating_v = wf_song_get_rating st song in
                if \<not> wf_stats_rating_is_valid rating_v \<or>
                   (\<not> (rating_inc_zero f \<and> rating_v = 0) \<and>
                    (rating_v < rating_min f \<or> rating_v > rating_max f))
                then True else filtered0)
             else filtered0);
          filtered2 =
            (if score_on \<and> \<not> filtered1 then
               (let score_v = wf_song_get_score st song in
                if \<not> wf_stats_score_is_valid score_v \<or>
                   (score_v < real_of_int (score_min f) \<or> score_v > real_of_int (score_max f))
                then True else filtered1)
             else filtered1);
          filtered3 =
            (if playcount_on \<and> \<not> filtered2 then
               (let playcount_v = wf_song_get_play_count st song in
                if \<not> wf_stats_playcount_is_valid playcount_v \<or>
                   (playcount_invert f \<and> playcount_v > playcount_th f) \<or>
                   (\<not> playcount_invert f \<and> playcount_v < playcount_th f)
                then True else filtered2)
             else filtered2);
          filtered4 =
            (if skipcount_on \<and> \<not> filtered3 then
               (let skipcount_v = wf_song_get_skip_count st song in
                if \<not> wf_stats_skipcount_is_valid skipcount_v \<or>
                   (skipcount_invert f \<and> skipcount_v > skipcount_th f) \<or>
                   (\<not> skipcount_invert f \<and> skipcount_v < skipcount_th f)
                then True else filtered3)
             else filtered3);
          filtered5 =
            (if lastplayed_on \<and> \<not> filtered4 then
               (let lastplayed_v = wf_song_get_last_played st song;
                    time_since_last_played = wf_utils_time_compare lastplayed_v time
                in
                if \<not> wf_stats_lastplayed_is_valid lastplayed_v \<or>
                   (lastplayed_invert f \<and> time_since_last_played > lastplayed_th f) \<or>
                   (\<not> lastplayed_invert f \<and> time_since_last_played < lastplayed_th f)
                then True else filtered4)
             else filtered4)
      in filtered5)"

text \<open>
  \<^verbatim>\<open>wf_intelligence_filter_by_stats\<close>: \<^verbatim>\<open>g_list_remove_link\<close> unlinks the very
  node of the item, so the items that are not filtered stay, in their order.
\<close>

definition wf_intelligence_filter_by_stats ::
  "song_store \<Rightarrow> int \<Rightarrow> song_ptr list \<Rightarrow> WfSongFilter \<Rightarrow> song_ptr list" where
  "wf_intelligence_filter_by_stats st time library f =
     (if library = [] then []
      else filter (\<lambda>song. \<not> filter_by_stats_filtered st time f song) library)"

definition wf_intelligence_get_percentage_of_list :: "'a list \<Rightarrow> real \<Rightarrow> int" where
  "wf_intelligence_get_percentage_of_list list percentage =
     (if list = [] \<or> percentage \<le> 0 then 0
      else
        (let total = int (length list) in
         if percentage \<ge> 100 then total
         else gint_of_gdouble ((real_of_int total * percentage) / 100)))"

definition wf_intelligence_sort_compare :: "song_store \<Rightarrow> song_ptr \<Rightarrow> song_ptr \<Rightarrow> int" where
  "wf_intelligence_sort_compare st song_a song_b =
     (let valid_a = wf_song_is_valid st song_a;
          valid_b = wf_song_is_valid st song_b
      in if \<not> valid_a \<and> \<not> valid_b then 0
         else if \<not> valid_a \<and> valid_b then 1
         else if valid_a \<and> \<not> valid_b then - 1
         else
           (let last_played_a = wf_song_get_last_played st song_a;
                last_played_b = wf_song_get_last_played st song_b
            in if last_played_a > last_played_b then - 1
               else if last_played_a < last_played_b then 1
               else 0))"

text \<open>
  \<^verbatim>\<open>g_list_sort\<close> of GLib is a stable merge sort. The model is the stable insertion
  sort, which returns the same list whenever the comparison is a total preorder.
\<close>

fun g_list_insert_sorted :: "('a \<Rightarrow> 'a \<Rightarrow> int) \<Rightarrow> 'a \<Rightarrow> 'a list \<Rightarrow> 'a list" where
  "g_list_insert_sorted compare_func x [] = [x]"
| "g_list_insert_sorted compare_func x (y # ys) =
     (if compare_func x y \<le> 0 then x # y # ys
      else y # g_list_insert_sorted compare_func x ys)"

fun g_list_sort :: "('a \<Rightarrow> 'a \<Rightarrow> int) \<Rightarrow> 'a list \<Rightarrow> 'a list" where
  "g_list_sort compare_func [] = []"
| "g_list_sort compare_func (x # xs) =
     g_list_insert_sorted compare_func x (g_list_sort compare_func xs)"

text \<open>
  The first two loops of \<^verbatim>\<open>wf_intelligence_remove_recents\<close>: every song of the
  list counts as one removal, whether the library held it or not.
\<close>

fun remove_recents_listed ::
  "song_ptr list \<Rightarrow> song_ptr list \<Rightarrow> int \<Rightarrow> int \<Rightarrow> song_ptr list \<times> int" where
  "remove_recents_listed [] library x amount = (library, x)"
| "remove_recents_listed (song # list) library x amount =
     (if x < amount then remove_recents_listed list (remove1 song library) (x + 1) amount
      else (library, x))"

text \<open>The third loop: over the sorted copy; a song never played is skipped and not counted.\<close>

fun remove_recents_by_last_played ::
  "song_store \<Rightarrow> song_ptr list \<Rightarrow> song_ptr list \<Rightarrow> int \<Rightarrow> int \<Rightarrow> song_ptr list \<times> int" where
  "remove_recents_by_last_played st [] library x amount = (library, x)"
| "remove_recents_by_last_played st (song # list) library x amount =
     (if x < amount then
        (if wf_song_get_last_played st song \<le> 0
         then remove_recents_by_last_played st list library x amount
         else remove_recents_by_last_played st list (remove1 song library) (x + 1) amount)
      else (library, x))"

definition wf_intelligence_remove_recents ::
  "song_store \<Rightarrow> song_ptr list \<Rightarrow> song_ptr list \<Rightarrow> song_ptr list \<Rightarrow> int \<Rightarrow> song_ptr list" where
  "wf_intelligence_remove_recents st library list_prev list_nxt amount =
     (if library = [] \<or> amount \<le> 0 then library
      else
        (let (library1, x1) = remove_recents_listed list_nxt library 0 amount;
             (library2, x2) = remove_recents_listed list_prev library1 x1 amount
         in if x2 < amount then
              (let new_list = g_list_sort (wf_intelligence_sort_compare st) library2
               in fst (remove_recents_by_last_played st new_list library2 x2 amount))
            else library2))"

text \<open>
  \<^verbatim>\<open>wf_intelligence_filter\<close>. \<open>filter_stat_stages\<close> is the value of
  \<^verbatim>\<open>filtered_songs\<close> after the availability, artist and statistic stages, and
  \<open>filter_remove_recent\<close> the value of the local \<^verbatim>\<open>remove_recent\<close>, the amount
  handed to \<^verbatim>\<open>wf_intelligence_remove_recents\<close>. The last test returns \<^verbatim>\<open>NULL\<close>
  for a list of length 0, which is the empty list itself.
\<close>

definition filter_stat_stages ::
  "song_store \<Rightarrow> int \<Rightarrow> song_ptr list \<Rightarrow> nat list \<Rightarrow> WfSongFilter \<Rightarrow> song_ptr list" where
  "filter_stat_stages st time available_songs artist_list f =
     (let filtered_songs = wf_intelligence_remove_invalid_songs st available_songs;
          filtered_songs = wf_intelligence_remove_songs_with_artists st filtered_songs
                             artist_list (recent_artists f)
      in wf_intelligence_filter_by_stats st time filtered_songs f)"

definition filter_remove_recent ::
  "song_store \<Rightarrow> int \<Rightarrow> song_ptr list \<Rightarrow> nat list \<Rightarrow> WfSongFilter \<Rightarrow> int" where
  "filter_remove_recent st time available_songs artist_list f =
     wf_intelligence_get_percentage_of_list
       (filter_stat_stages st time available_songs artist_list f) (remove_recents_percentage f)
     + remove_recents_amount f"

definition wf_intelligence_filter ::
  "song_store \<Rightarrow> int \<Rightarrow> song_ptr list \<Rightarrow> song_ptr list \<Rightarrow> song_ptr list \<Rightarrow> nat list
     \<Rightarrow> WfSongFilter option \<Rightarrow> song_ptr list" where
  "wf_intelligence_filter st time available_songs previous_songs play_next artist_list filter_opt =
     (if available_songs = [] then []
      else
        (case filter_opt of
           None \<Rightarrow> available_songs
         | Some f \<Rightarrow>
             wf_intelligence_remove_recents st
               (filter_stat_stages st time available_songs artist_list f)
               previous_songs play_next
               (filter_remove_recent st time available_songs artist_list f)))"

subsection \<open>The weighted draw of the song chooser (intelligence.c)\<close>

record WfSongEntries =
  use_rating :: bool
  use_score :: bool
  use_playcount :: bool
  use_skipcount :: bool
  use_lastplayed :: bool
  invert_rating :: bool
  invert_score :: bool
  invert_playcount :: bool
  invert_skipcount :: bool
  invert_lastplayed :: bool
  use_default_rating :: int
  rating_multiplier :: real
  score_multiplier :: real
  playcount_multiplier :: real
  skipcount_multiplier :: real
  lastplayed_multiplier :: real

record WfIntelligenceContainer =
  total_entries :: int
  default_rating :: int
  favor_low_ratings :: bool
  rating_factor :: int
  favor_low_scores :: bool
  score_factor :: int
  favor_low_playcount :: bool
  playcount_factor :: int
  favor_low_skipcount :: bool
  skipcount_factor :: int
  favor_low_lastplayed :: bool
  lastplayed_factor :: int

definition MULTIPLIER_RATING :: int where "MULTIPLIER_RATING = 1000"
definition MULTIPLIER_SCORE :: int where "MULTIPLIER_SCORE = 1000"
definition MULTIPLIER_PLAYCOUNT :: int where "MULTIPLIER_PLAYCOUNT = 1000"
definition MULTIPLIER_SKIPCOUNT :: int where "MULTIPLIER_SKIPCOUNT = 1000"
definition MULTIPLIER_LASTPLAYED :: int where "MULTIPLIER_LASTPLAYED = 1000"
definition MAX_SONG_ENTRIES :: int where "MAX_SONG_ENTRIES = 100"
definition one_year :: int where "one_year = 365 * 24 * 60 * 60"

text \<open>
  \<^verbatim>\<open>wf_intelligence_determine_modifiers\<close>: the container is first zeroed, then
  filled from the preferences; the result is the returned flag and the container.
\<close>

definition container_zero :: WfIntelligenceContainer where
  "container_zero =
     \<lparr>total_entries = 0, default_rating = 0,
      favor_low_ratings = False, rating_factor = 0,
      favor_low_scores = False, score_factor = 0,
      favor_low_playcount = False, playcount_factor = 0,
      favor_low_skipcount = False, skipcount_factor = 0,
      favor_low_lastplayed = False, lastplayed_factor = 0\<rparr>"

definition wf_intelligence_determine_modifiers ::
  "WfSongEntries option \<Rightarrow> bool \<times> WfIntelligenceContainer" where
  "wf_intelligence_determine_modifiers preferences =
     (case preferences of
        None \<Rightarrow> (False, container_zero)
      | Some p \<Rightarrow>
          (let c0 = container_zero;
               c1 = (if use_rating p \<and> rating_multiplier p > 0
                     then c0\<lparr>rating_factor :=
                               gint_of_gdouble (rating_multiplier p * real_of_int MULTIPLIER_RATING),
                             favor_low_ratings := invert_rating p,
                             default_rating := use_default_rating p\<rparr>
                     else c0);
               c2 = (if use_score p \<and> score_multiplier p > 0
                     then c1\<lparr>score_factor :=
                               gint_of_gdouble (score_multiplier p * real_of_int MULTIPLIER_SCORE),
                             favor_low_scores := invert_score p\<rparr>
                     else c1);
               c3 = (if use_playcount p \<and> playcount_multiplier p > 0
                     then c2\<lparr>playcount_factor :=
                               gint_of_gdouble (playcount_multiplier p * real_of_int MULTIPLIER_PLAYCOUNT),
                             favor_low_playcount := invert_playcount p\<rparr>
                     else c2);
               c4 = (if use_skipcount p \<and> skipcount_multiplier p > 0
                     then c3\<lparr>skipcount_factor :=
                               gint_of_gdouble (skipcount_multiplier p * real_of_int MULTIPLIER_SKIPCOUNT),
                             favor_low_skipcount := invert_skipcount p\<rparr>
                     else c3);
               c5 = (if use_lastplayed p \<and> lastplayed_multiplier p > 0
                     then c4\<lparr>lastplayed_factor :=
                               gint_of_gdouble (lastplayed_multiplier p * real_of_int MULTIPLIER_LASTPLAYED),
                             favor_low_lastplayed := invert_lastplayed p\<rparr>
                     else c4)
           in (True, c5)))"

definition wf_intelligence_calculate_entries_with_fraction :: "int \<Rightarrow> int \<Rightarrow> int \<Rightarrow> bool \<Rightarrow> int" where
  "wf_intelligence_calculate_entries_with_fraction x a r invert =
     (if \<not> a > 0 then 0
      else if \<not> r > 0 then 0
      else if \<not> x \<ge> 0 then 0
      else if invert then
        gint_of_gdouble (real_of_int (a * r) / real_of_int (x + a))
      else
        gint_of_gdouble (real_of_int (- 1 * a * r) / real_of_int (x + a)) + r)"

definition wf_intelligence_calculate_entries_with_sqrt :: "int \<Rightarrow> int \<Rightarrow> int \<Rightarrow> bool \<Rightarrow> int" where
  "wf_intelligence_calculate_entries_with_sqrt x a r invert =
     (if \<not> a > 0 then 0
      else if \<not> r > 0 then 0
      else if \<not> x \<ge> 0 then 0
      else if invert then
        gint_of_gdouble ((real_of_int (- 1 * r) * sqrt (real_of_int x)) / real_of_int a) + r
      else
        gint_of_gdouble ((real_of_int r * sqrt (real_of_int x)) / real_of_int a))"

definition wf_intelligence_get_entries_count :: "int \<Rightarrow> int" where
  "wf_intelligence_get_entries_count count =
     wf_intelligence_calculate_entries_with_fraction count 100 MAX_SONG_ENTRIES False"

definition wf_intelligence_get_entries_count_inverted :: "int \<Rightarrow> int" where
  "wf_intelligence_get_entries_count_inverted count =
     wf_intelligence_calculate_entries_with_fraction count 100 MAX_SONG_ENTRIES True"

definition wf_intelligence_get_entries_time_since :: "int \<Rightarrow> int" where
  "wf_intelligence_get_entries_time_since time_since =
     wf_intelligence_calculate_entries_with_sqrt
       (if time_since > one_year then one_year else time_since) 5616 MAX_SONG_ENTRIES False"

definition wf_intelligence_get_entries_time_since_inverted :: "int \<Rightarrow> int" where
  "wf_intelligence_get_entries_time_since_inverted time_since =
     wf_intelligence_calculate_entries_with_sqrt
       (if time_since > one_year then one_year else time_since) 5616 MAX_SONG_ENTRIES True"

text \<open>
  The five blocks of the loop body of \<^verbatim>\<open>wf_intelligence_calculate_song_entries\<close>,
  each from the value of \<^verbatim>\<open>entries\<close> before the block to its value after it.
  The score block adds a double to the integer, and the sum is cast back.
\<close>

definition entries_add_rating :: "WfIntelligenceContainer \<Rightarrow> song_store \<Rightarrow> song_ptr \<Rightarrow> int \<Rightarrow> int" where
  "entries_add_rating c st song entries =
     (if rating_factor c \<noteq> 0 then
        (let rating_v = wf_song_get_rating st song in
         if wf_stats_rating_is_valid rating_v then
           (let rating_used =
                  (if favor_low_ratings c then wf_stats_rating_invert rating_v
                   else if rating_v = 0 then default_rating c
                   else rating_v)
            in entries + rating_used * rating_factor c)
         else entries)
      else entries)"

definition entries_add_score :: "WfIntelligenceContainer \<Rightarrow> song_store \<Rightarrow> song_ptr \<Rightarrow> int \<Rightarrow> int" where
  "entries_add_score c st song entries =
     (if score_factor c \<noteq> 0 then
        (let score_v = wf_song_get_score st song in
         if wf_stats_score_is_valid score_v then
           (let score_used = (if favor_low_scores c then wf_stats_score_invert score_v else score_v)
            in gint_of_gdouble (real_of_int entries + score_used * real_of_int (score_factor c)))
         else entries)
      else entries)"

definition entries_add_playcount :: "WfIntelligenceContainer \<Rightarrow> song_store \<Rightarrow> song_ptr \<Rightarrow> int \<Rightarrow> int" where
  "entries_add_playcount c st song entries =
     (if playcount_factor c \<noteq> 0 then
        (let playcount_v = wf_song_get_play_count st song in
         if wf_stats_playcount_is_valid playcount_v then
           (let x = (if favor_low_playcount c
                     then wf_intelligence_get_entries_count_inverted playcount_v
                     else wf_intelligence_get_entries_count playcount_v)
            in entries + x * playcount_factor c)
         else entries)
      else entries)"

definition entries_add_skipcount :: "WfIntelligenceContainer \<Rightarrow> song_store \<Rightarrow> song_ptr \<Rightarrow> int \<Rightarrow> int" where
  "entries_add_skipcount c st song entries =
     (if skipcount_factor c \<noteq> 0 then
        (let skipcount_v = wf_song_get_skip_count st song in
         if wf_stats_skipcount_is_valid skipcount_v then
           (let x = (if favor_low_skipcount c
                     then wf_intelligence_get_entries_count_inverted skipcount_v
                     else wf_intelligence_get_entries_count skipcount_v)
            in entries + x * skipcount_factor c)
         else entries)
      else entries)"

text \<open>
  The value \<^verbatim>\<open>x\<close> of the last played block, from the time since the song was
  played: above one year it is set to \<open>100\<close>, whichever curve is in use.
\<close>

definition lastplayed_x :: "WfIntelligenceContainer \<Rightarrow> int \<Rightarrow> int" where
  "lastplayed_x c time_since_last_played =
     (if time_since_last_played > one_year then 100
      else if favor_low_lastplayed c
        then wf_intelligence_get_entries_time_since_inverted time_since_last_played
      else wf_intelligence_get_entries_time_since time_since_last_played)"

definition entries_add_lastplayed ::
  "WfIntelligenceContainer \<Rightarrow> int \<Rightarrow> song_store \<Rightarrow> song_ptr \<Rightarrow> int \<Rightarrow> int" where
  "entries_add_lastplayed c current_time st song entries =
     (if lastplayed_factor c \<noteq> 0 then
        (let lastplayed_v = wf_song_get_last_played st song in
         if wf_stats_lastplayed_is_valid lastplayed_v then
           (let time_since_last_played = wf_utils_time_compare lastplayed_v current_time;
                x = lastplayed_x c time_since_last_played
            in entries + x * lastplayed_factor c)
         else entries)
      else entries)"

text \<open>The value of \<^verbatim>\<open>entries\<close> of a song when the loop body reaches the test \<^verbatim>\<open>entries < 0\<close>.\<close>

definition song_entries :: "WfIntelligenceContainer \<Rightarrow> int \<Rightarrow> song_store \<Rightarrow> song_ptr \<Rightarrow> int" where
  "song_entries c current_time st song =
     entries_add_lastplayed c current_time st song
       (entries_add_skipcount c st song
         (entries_add_playcount c st song
           (entries_add_score c st song
             (entries_add_rating c st song 0))))"

text \<open>
  A \<^verbatim>\<open>WfDList\<close> is the list of its (key, value) nodes; \<^verbatim>\<open>wf_d_list_add\<close> walks to
  the last node and links the new one behind it.
\<close>

type_synonym WfDList = "(song_ptr \<times> int) list"

definition wf_d_list_add :: "WfDList \<Rightarrow> song_ptr \<Rightarrow> int \<Rightarrow> WfDList" where
  "wf_d_list_add list key v = list @ [(key, v)]"

text \<open>
  \<^verbatim>\<open>full_sum\<close> is a \<^verbatim>\<open>gint\<close>, and the entries of a library add up past
  \<^verbatim>\<open>G_MAXINT\<close> (at the default settings a song never played has 100000 entries).
  The addition \<^verbatim>\<open>full_sum += entries\<close> is therefore taken in two's complement: the
  result is the value in \<open>[- 2^31, 2^31)\<close> that differs from the sum by a multiple of \<open>2^32\<close>.
\<close>

definition G_MAXINT :: int where "G_MAXINT = 2147483647"

definition gint_wrap :: "int \<Rightarrow> int" where
  "gint_wrap x = (x + 2147483648) mod 4294967296 - 2147483648"

fun calculate_song_entries_loop ::
  "WfIntelligenceContainer \<Rightarrow> int \<Rightarrow> song_store \<Rightarrow> song_ptr list \<Rightarrow> WfDList \<Rightarrow> int \<Rightarrow> WfDList \<times> int" where
  "calculate_song_entries_loop c current_time st [] dlist full_sum = (dlist, full_sum)"
| "calculate_song_entries_loop c current_time st (song # list) dlist full_sum =
     (let entries = song_entries c current_time st song in
      if entries < 0 then calculate_song_entries_loop c current_time st list dlist full_sum
      else
        (let entries1 = (if entries = 0 then 1 else entries)
         in calculate_song_entries_loop c current_time st list
              (wf_d_list_add dlist song entries1) (gint_wrap (full_sum + entries1))))"

text \<open>
  \<^verbatim>\<open>wf_intelligence_calculate_song_entries\<close> returns the list and writes
  \<^verbatim>\<open>total_entries\<close> into the container; the result is the container and the list.
\<close>

definition wf_intelligence_calculate_song_entries ::
  "WfIntelligenceContainer \<Rightarrow> int \<Rightarrow> song_store \<Rightarrow> song_ptr list \<Rightarrow> WfIntelligenceContainer \<times> WfDList" where
  "wf_intelligence_calculate_song_entries c current_time st song_list =
     (if song_list = [] then (c, [])
      else
        (let (dlist, full_sum) = calculate_song_entries_loop c current_time st song_list [] 0
         in if full_sum \<le> 0 then (c, [])
            else (c\<lparr>total_entries := full_sum\<rparr>, dlist)))"

text \<open>
  \<^verbatim>\<open>wf_intelligence_random\<close>; \<open>v\<close> is the value \<^verbatim>\<open>g_rand_int\<close> returned. It is
  only called with \<^verbatim>\<open>lower = 1\<close> and a positive \<^verbatim>\<open>upper\<close>.
\<close>

definition wf_intelligence_random :: "nat \<Rightarrow> int \<Rightarrow> int \<Rightarrow> int" where
  "wf_intelligence_random v lower upper = (int v mod (upper - lower + 1)) + lower"

fun pick_winner_loop :: "WfDList \<Rightarrow> int \<Rightarrow> int \<Rightarrow> song_ptr option" where
  "pick_winner_loop [] rand sum0 = None"
| "pick_winner_loop ((song, entries) # item) rand sum0 =
     (if entries \<le> 0 then pick_winner_loop item rand sum0
      else
        (let sum1 = sum0 + entries
         in if sum1 \<ge> rand then Some song
            else pick_winner_loop item rand sum1))"

definition wf_intelligence_pick_winner ::
  "WfIntelligenceContainer \<Rightarrow> WfDList \<Rightarrow> nat \<Rightarrow> song_ptr option" where
  "wf_intelligence_pick_winner c list v =
     (if list = [] then None
      else
        (let total = total_entries c in
         if \<not> total > 0 then None
         else pick_winner_loop list (wf_intelligence_random v 1 total) 0))"

definition wf_intelligence_get_song ::
  "song_store \<Rightarrow> int \<Rightarrow> nat \<Rightarrow> song_ptr list \<Rightarrow> WfSongEntries option \<Rightarrow> song_ptr option" where
  "wf_intelligence_get_song st current_time v filtered_songs preferences =
     (if filtered_songs = [] then None
      else
        (case wf_intelligence_determine_modifiers preferences of
           (False, container) \<Rightarrow> None
         | (True, container) \<Rightarrow>
             (let (container1, list) =
                    wf_intelligence_calculate_song_entries container current_time st filtered_songs
              in wf_intelligence_pick_winner container1 list v)))"

subsection \<open>Test data\<close>

text \<open>
  A new song (score 50, nothing played yet, no artist), the default settings of
  \<^verbatim>\<open>settings.c\<close>, and a program state that plays song 0 after song 1.
\<close>

definition example_song :: WfSongPrivate where
  "example_song =
     \<lparr>uri = Some ''file:///a.ogg'', artist_hash = 0, album_artist_hash = 0,
      status = WF_SONG_AVAILABLE, rating = 0, score = 50, playcount = 0, skipcount = 0,
      lastplayed = 0\<rparr>"

definition example_settings :: WfSettings where
  "example_settings = \<lparr>min_played_fraction = 2 / 10, full_played_fraction = 8 / 10\<rparr>"

definition example_state :: WfState where
  "example_state =
     \<lparr>manager = \<lparr>active = True, current = Some 0, list_previous = [1], list_next = [],
                  list_queue = [], artists = [5, 7], incognito = False\<rparr>,
      songs = [0 \<mapsto> example_song, 1 \<mapsto> example_song\<lparr>artist_hash := 5\<rparr>],
      settings = example_settings\<rparr>"

text \<open>
  The library of the filter example of the specification: ten available songs, of which
  song 103 alone has a rating (10) outside the range of the rating filter (50 to 100);
  half of the recent songs are to be removed, and no fixed amount.
\<close>

definition example_library :: "song_ptr list" where
  "example_library = [100, 101, 102, 103, 104, 105, 106, 107, 108, 109]"

definition example_library_store :: song_store where
  "example_library_store =
     (\<lambda>song. if 100 \<le> song \<and> song < 110
             then Some (example_song\<lparr>rating := (if song = 103 then 10 else 80),
                                      lastplayed := 1000 + int song\<rparr>)
             else None)"

definition example_filter :: WfSongFilter where
  "example_filter =
     \<lparr>recent_artists = 0, remove_recents_amount = 0, remove_recents_percentage = 50,
      WfSongFilter.use_rating = True, WfSongFilter.use_score = False,
      WfSongFilter.use_playcount = False, WfSongFilter.use_skipcount = False,
      WfSongFilter.use_lastplayed = False, rating_inc_zero = False,
      playcount_invert = False, skipcount_invert = False, lastplayed_invert = False,
      rating_min = 50, rating_max = 100, score_min = 0, score_max = 0,
      playcount_th = 0, skipcount_th = 0, lastplayed_th = 0\<rparr>"

text \<open>
  The end-to-end example of the specification: songs 20, 21 and 22 with the ratings 80,
  unset and 100; only the rating modifier is on, with multiplier 1.0 and default rating 20.
\<close>

definition example_preferences :: WfSongEntries where
  "example_preferences =
     \<lparr>use_rating = True, use_score = False, use_playcount = False, use_skipcount = False,
      use_lastplayed = False, invert_rating = False, invert_score = False,
      invert_playcount = False, invert_skipcount = False, invert_lastplayed = False,
      use_default_rating = 20, rating_multiplier = 1, score_multiplier = 0,
      playcount_multiplier = 0, skipcount_multiplier = 0, lastplayed_multiplier = 0\<rparr>"

definition example_rated_store :: song_store where
  "example_rated_store =
     [20 \<mapsto> example_song\<lparr>rating := 80\<rparr>, 21 \<mapsto> example_song\<lparr>rating := 0\<rparr>,
      22 \<mapsto> example_song\<lparr>rating := 100\<rparr>]"

definition example_rated_modifiers :: WfIntelligenceContainer where
  "example_rated_modifiers = container_zero\<lparr>rating_factor := 1000, default_rating := 20\<rparr>"

definition example_rated_container :: WfIntelligenceContainer where
  "example_rated_container = example_rated_modifiers\<lparr>total_entries := 200000\<rparr>"

definition example_rated_entries :: WfDList where
  "example_rated_entries = [(20, 80000), (21, 20000), (22, 100000)]"

text \<open>
  A container whose default rating is negative, and three songs whose entries come out
  negative (song 10), zero (song 11) and positive (song 12).
\<close>

definition example_disqualify_container :: WfIntelligenceContainer where
  "example_disqualify_container =
     container_zero\<lparr>rating_factor := 1000, default_rating := - 5, score_factor := 1000\<rparr>"

definition example_disqualify_store :: song_store where
  "example_disqualify_store =
     [10 \<mapsto> example_song\<lparr>rating := 0, score := 0\<rparr>,
      11 \<mapsto> example_song\<lparr>rating := 0, score := 5\<rparr>,
      12 \<mapsto> example_song\<lparr>rating := 50, score := 0\<rparr>,
      13 \<mapsto> example_song\<lparr>rating := 0, score := 9999 / 2000\<rparr>]"

text \<open>
  A library of 2149 songs with settings in their declared ranges: only the rating modifier
  is on, with the largest multiplier (10.0) and default rating 0; the songs 0 to 2147 are
  rated 100 and song 2148 is not rated.
\<close>

definition example_overflow_container :: WfIntelligenceContainer where
  "example_overflow_container = container_zero\<lparr>rating_factor := 10000\<rparr>"

definition example_overflow_store :: song_store where
  "example_overflow_store =
     (\<lambda>song. if song < 2148 then Some (example_song\<lparr>rating := 100\<rparr>)
             else if song = 2148 then Some example_song
             else None)"

definition example_overflow_library :: "song_ptr list" where
  "example_overflow_library = [0..<2149]"

text \<open>A container with the last played modifier alone, and a song last played at time 1000.\<close>

definition example_lastplayed_container :: WfIntelligenceContainer where
  "example_lastplayed_container = container_zero\<lparr>lastplayed_factor := 1000\<rparr>"

definition example_lastplayed_store :: song_store where
  "example_lastplayed_store = [0 \<mapsto> example_song\<lparr>lastplayed := 1000\<rparr>]"

section \<open>Properties\<close>

lemmas stat_consts = STAT_RATING_MIN_def STAT_RATING_MAX_def STAT_SCORE_MIN_def STAT_SCORE_MAX_def
  STAT_PLAYCOUNT_MIN_def STAT_SKIPCOUNT_MIN_def STAT_LASTPLAYED_MIN_def

subsection \<open>Statistics\<close>

text \<open>
  Claim C3: in \<^verbatim>\<open>wf_stats_modify_and_update_score\<close> a played fraction in \<open>[0,1]\<close>
  that is at least the full played fraction of the settings counts as \<open>1.0\<close>.

  The code does not do this. The setting is read only in the branch
  \<^verbatim>\<open>else if (played_fraction >= 1.0)\<close>, where the fraction is \<open>1.0\<close> already, although
  the comment of that branch reads "If played equal or more than full_played_fraction say
  it is fully played". With the setting at \<open>0.9\<close>, a new song (score 50, never played)
  and a fraction of \<open>0.95\<close>, the stored score is \<open>(50 + 95) / 2 = 72.5\<close>; a fraction of
  \<open>1.0\<close> gives \<open>75\<close>.
\<close>

theorem C3_full_played_fraction_ignored:
  "score (wf_stats_modify_and_update_score False
            (example_settings\<lparr>full_played_fraction := 9 / 10\<rparr>) example_song (95 / 100)) = 145 / 2
   \<and> score (wf_stats_modify_and_update_score False
            (example_settings\<lparr>full_played_fraction := 9 / 10\<rparr>) example_song 1) = 75"
  by (simp add: wf_stats_modify_and_update_score_def wf_stats_update_score_def CLAMP_def
        example_song_def example_settings_def stat_consts Let_def)

text \<open>
  Claim C4, as amended: outside incognito mode, \<^verbatim>\<open>wf_stats_modify_and_update_skipcount\<close>
  adds one to a valid skip count exactly when the played fraction does not exceed the full
  played fraction; the minimum played fraction is not read.
\<close>

theorem C4_skipcount_gate:
  assumes "wf_stats_skipcount_is_valid (skipcount song)"
  shows "skipcount (wf_stats_modify_and_update_skipcount False sett song played_fraction False) =
           (if played_fraction \<le> full_played_fraction sett then skipcount song + 1
            else skipcount song)"
  using assms
  by (simp add: wf_stats_modify_and_update_skipcount_def wf_stats_update_skipcount_def
        wf_stats_skipcount_is_valid_def stat_consts Let_def)

theorem C4_skipcount_gate_witness:
  "wf_stats_skipcount_is_valid (skipcount example_song)
   \<and> skipcount (wf_stats_modify_and_update_skipcount False example_settings example_song
                  (5 / 10) False) = 1
   \<and> skipcount (wf_stats_modify_and_update_skipcount False example_settings example_song
                  (9 / 10) False) = 0"
  using C4_skipcount_gate [of example_song example_settings "5 / 10"]
    C4_skipcount_gate [of example_song example_settings "9 / 10"]
  by (simp add: example_song_def example_settings_def wf_stats_skipcount_is_valid_def stat_consts)

text \<open>
  Claim C4 as it was stated fails: with the default settings (minimum \<open>0.2\<close>, full
  \<open>0.8\<close>) a fraction of \<open>0.1\<close> is below the minimum, and the skip count goes from 3 to 4.
\<close>

theorem C4_skipcount_below_minimum_counterexample:
  "(1 / 10 :: real) < min_played_fraction example_settings
   \<and> skipcount (wf_stats_modify_and_update_skipcount False example_settings
                  (example_song\<lparr>skipcount := 3\<rparr>) (1 / 10) False) = 4"
  by (simp add: wf_stats_modify_and_update_skipcount_def wf_stats_update_skipcount_def
        example_song_def example_settings_def stat_consts Let_def)

text \<open>
  Claim C7: outside incognito mode, for a played fraction in \<open>[0,1]\<close>, a valid old score and
  a valid play count, \<^verbatim>\<open>wf_stats_modify_and_update_score\<close> stores the mean of the old
  score and \<open>played_fraction * 100\<close> when the play count is 0, and the mean weighted by the
  play count otherwise, clamped to \<open>[0,100]\<close>.
\<close>

theorem C7_score_update_formula:
  assumes "0 \<le> played_fraction" "played_fraction \<le> 1"
    and "wf_stats_score_is_valid (score song)"
    and "wf_stats_playcount_is_valid (playcount song)"
  shows "score (wf_stats_modify_and_update_score False sett song played_fraction) =
           CLAMP (if playcount song = 0 then (score song + played_fraction * 100) / 2
                  else (score song * real_of_int (playcount song) + played_fraction * 100)
                         / real_of_int (playcount song + 1)) 0 100"
proof -
  let ?s = "score song" and ?n = "playcount song" and ?p = "played_fraction"
  let ?new = "(if ?n = 0 then (?s + ?p * 100) / 2
               else (?s * real_of_int ?n + ?p * 100) / real_of_int (?n + 1))"
  from assms have s: "0 \<le> ?s" "?s \<le> 100" and n: "0 \<le> ?n"
    by (simp_all add: wf_stats_score_is_valid_def wf_stats_playcount_is_valid_def stat_consts)
  have sn: "0 \<le> ?s * real_of_int ?n" "?s * real_of_int ?n \<le> 100 * real_of_int ?n"
    using s n by (simp_all add: mult_right_mono)
  have lo: "0 \<le> ?new"
    using s n sn assms(1) by (simp add: divide_nonneg_nonneg)
  have hi: "?new \<le> 100"
  proof (cases "?n = 0")
    case True
    then show ?thesis using s assms(2) by simp
  next
    case False
    with n have pos: "0 < real_of_int (?n + 1)" by simp
    have "?s * real_of_int ?n + ?p * 100 \<le> 100 * real_of_int (?n + 1)"
      using sn assms(2) by simp
    then have "(?s * real_of_int ?n + ?p * 100) / real_of_int (?n + 1) \<le> 100"
      using pos by (simp add: pos_divide_le_eq)
    with False show ?thesis by simp
  qed
  have clamp: "CLAMP ?new 0 100 = ?new"
    using lo hi by (simp add: CLAMP_def)
  have zero: "?new = 0 \<Longrightarrow> ?s = 0"
  proof -
    assume z: "?new = 0"
    show "?s = 0"
    proof (cases "?n = 0")
      case True
      with z have "?s + ?p * 100 = 0" by simp
      with s assms(1) show ?thesis by simp
    next
      case False
      with n have pos: "0 < real_of_int (?n + 1)" and npos: "0 < real_of_int ?n" by simp_all
      from z False pos have "?s * real_of_int ?n + ?p * 100 = 0" by simp
      moreover have "0 \<le> ?p * 100" using assms(1) by simp
      ultimately have "?s * real_of_int ?n = 0" using sn(1) by linarith
      with npos show ?thesis by simp
    qed
  qed
  have body: "wf_stats_modify_and_update_score False sett song ?p =
                wf_stats_update_score song (CLAMP ?new 0 100) 0"
    using assms(1,2) s n
    by (auto simp add: wf_stats_modify_and_update_score_def stat_consts Let_def)
  have upd: "score (wf_stats_update_score song ?new 0) = ?new"
  proof (cases "?new = 0")
    case True
    with zero s show ?thesis
      by (simp add: wf_stats_update_score_def stat_consts Let_def)
  next
    case False
    with lo hi show ?thesis
      by (simp add: wf_stats_update_score_def stat_consts Let_def)
  qed
  show ?thesis
    unfolding body clamp using upd .
qed

text \<open>The instance of the specification: play count 0, old score 50, fraction 1.0, new score 75.\<close>

theorem C7_score_update_formula_witness:
  "0 \<le> (1::real) \<and> (1::real) \<le> 1 \<and> wf_stats_score_is_valid (score example_song)
   \<and> wf_stats_playcount_is_valid (playcount example_song)
   \<and> playcount example_song = 0 \<and> score example_song = 50
   \<and> score (wf_stats_modify_and_update_score False example_settings example_song 1) = 75"
  using C7_score_update_formula [of 1 example_song example_settings]
  by (simp add: example_song_def wf_stats_score_is_valid_def wf_stats_playcount_is_valid_def
        stat_consts CLAMP_def)

subsection \<open>The song manager\<close>

text \<open>
  Claim C8: with incognito mode on, \<^verbatim>\<open>wf_song_manager_add_played_song\<close> leaves every
  song object as it was (so its rating, score, play count, skip count and last played
  value), and each of the four \<^verbatim>\<open>wf_stats_modify_and_update_*\<close> wrappers returns the
  song unchanged, whatever the played fraction.
\<close>

theorem C8_incognito_gate:
  assumes "incognito (manager w)"
  shows "songs (wf_song_manager_add_played_song w time_now song played_fraction skip_score_update)
           = songs w
       \<and> wf_stats_modify_and_update_score (wf_song_manager_get_incognito w) sett sg played_fraction = sg
       \<and> wf_stats_modify_and_update_playcount (wf_song_manager_get_incognito w) sett sg
            played_fraction decrease = sg
       \<and> wf_stats_modify_and_update_skipcount (wf_song_manager_get_incognito w) sett sg
            played_fraction decrease = sg
       \<and> wf_stats_modify_and_update_lastplayed (wf_song_manager_get_incognito w) sett time_now sg
            played_fraction time = sg"
  using assms
  by (simp add: wf_song_manager_add_played_song_def wf_song_manager_add_prev_song_def
        wf_song_manager_get_incognito_def wf_stats_modify_and_update_score_def
        wf_stats_modify_and_update_playcount_def wf_stats_modify_and_update_skipcount_def
        wf_stats_modify_and_update_lastplayed_def Let_def split: option.splits)

text \<open>
  Song 0 played in full at time 1000: in incognito mode it stays as it was; outside it the
  same call changes score, play count and last played.
\<close>

theorem C8_incognito_gate_witness:
  "incognito (manager (example_state\<lparr>manager := (manager example_state)\<lparr>incognito := True\<rparr>\<rparr>))
   \<and> songs (wf_song_manager_add_played_song
              (example_state\<lparr>manager := (manager example_state)\<lparr>incognito := True\<rparr>\<rparr>)
              1000 0 1 False) 0 = Some example_song
   \<and> songs (wf_song_manager_add_played_song example_state 1000 0 1 False) 0
       = Some (example_song\<lparr>score := 75, playcount := 1, skipcount := 0, lastplayed := 1000\<rparr>)"
  using C8_incognito_gate
          [of "example_state\<lparr>manager := (manager example_state)\<lparr>incognito := True\<rparr>\<rparr>"
              1000 0 1 False]
  apply (simp add: example_state_def)
  apply (simp add: wf_song_manager_add_played_song_def wf_song_manager_add_prev_song_def
         add_played_song_update_statistics_def wf_song_manager_get_incognito_def
         wf_stats_modify_and_update_score_def wf_stats_update_score_def CLAMP_def
         wf_stats_modify_and_update_playcount_def wf_stats_update_playcount_def
         wf_stats_modify_and_update_skipcount_def wf_stats_update_skipcount_def
         wf_stats_modify_and_update_lastplayed_def wf_stats_update_lastplayed_def
         example_song_def example_settings_def stat_consts Let_def)
  done


lemma trim_list_length_limit_1:
  "wf_song_manager_trim_list_length list 1 = list"
  by (simp add: wf_song_manager_trim_list_length_def g_list_nth_def)




text \<open>
  Claim C10: when \<^verbatim>\<open>wf_song_manager_add_played_song\<close> records a song whose artist
  hash is 0, the list of recent artists becomes empty: \<^verbatim>\<open>wf_song_manager_add_recent_artist\<close>
  returns \<^verbatim>\<open>NULL\<close> for the hash 0, and the result is stored.
\<close>

theorem C10_no_artist_clears_recent_artists:
  assumes "songs w song = Some sg" and "0 \<le> played_fraction" and "played_fraction \<le> 1"
    and "wf_song_get_artist_hash (songs w) song = 0"
  shows "artists (manager (wf_song_manager_add_played_song w time_now song played_fraction
                             skip_score_update)) = []"
  using assms
  by (simp add: wf_song_manager_add_played_song_def wf_song_manager_add_prev_song_def
        wf_song_manager_add_recent_artist_def Let_def)

theorem C10_no_artist_clears_recent_artists_witness:
  "songs example_state 0 = Some example_song \<and> (0::real) \<le> 1 \<and> (1::real) \<le> 1
   \<and> wf_song_get_artist_hash (songs example_state) 0 = 0
   \<and> artists (manager example_state) = [5, 7]
   \<and> artists (manager (wf_song_manager_add_played_song example_state 1000 0 1 False)) = []"
  using C10_no_artist_clears_recent_artists [of example_state 0 example_song 1 1000 False]
  by (simp add: example_state_def example_song_def wf_song_get_artist_hash_def
        song_artist_hash_def)

subsection \<open>The filter\<close>

lemma get_percentage_of_list_floor:
  assumes "0 \<le> percentage" and "percentage \<le> 100"
  shows "wf_intelligence_get_percentage_of_list list percentage =
           \<lfloor>real (length list) * percentage / 100\<rfloor>"
proof -
  have "0 \<le> real (length list) * percentage / 100"
    using assms(1) by simp
  then show ?thesis
    using assms
    by (auto simp add: wf_intelligence_get_percentage_of_list_def gint_of_gdouble_def Let_def)
qed

text \<open>
  Outside the range from 0 to 100 the percentage is clamped: below it nothing is taken, above
  it the whole list.
\<close>

lemma get_percentage_of_list_clamped:
  "wf_intelligence_get_percentage_of_list list percentage =
     \<lfloor>real (length list) * max 0 (min 100 percentage) / 100\<rfloor>"
proof -
  consider "percentage \<le> 0" | "100 \<le> percentage" | "0 \<le> percentage" "percentage \<le> 100"
    by linarith
  then show ?thesis
  proof cases
    case 1
    then show ?thesis
      by (simp add: wf_intelligence_get_percentage_of_list_def max_def min_def)
  next
    case 2
    then show ?thesis
      by (simp add: wf_intelligence_get_percentage_of_list_def max_def min_def Let_def)
  next
    case 3
    then show ?thesis
      by (simp add: get_percentage_of_list_floor max_def min_def)
  qed
qed

text \<open>
  Claim C1, as amended: in \<^verbatim>\<open>wf_intelligence_filter\<close> the amount the recency stage
  is asked to remove is the floor of a percentage of the number of songs left after the
  availability, artist and statistic stages, plus the fixed amount, where the percentage
  is the one of the filter clamped to the range from 0 to 100; for a percentage inside
  that range it is the floor of that percentage itself. The result of the filter is the
  recency stage run with this amount on those songs.
\<close>

theorem C1_recency_amount_after_earlier_stages:
  "filter_remove_recent st time available_songs artist_list f =
     \<lfloor>real (length (filter_stat_stages st time available_songs artist_list f))
         * max 0 (min 100 (remove_recents_percentage f)) / 100\<rfloor>
     + remove_recents_amount f
   \<and> (0 \<le> remove_recents_percentage f \<and> remove_recents_percentage f \<le> 100 \<longrightarrow>
        filter_remove_recent st time available_songs artist_list f =
          \<lfloor>real (length (filter_stat_stages st time available_songs artist_list f))
              * remove_recents_percentage f / 100\<rfloor>
          + remove_recents_amount f)
   \<and> (available_songs \<noteq> [] \<longrightarrow>
        wf_intelligence_filter st time available_songs previous_songs play_next artist_list (Some f)
        = wf_intelligence_remove_recents st
            (filter_stat_stages st time available_songs artist_list f) previous_songs play_next
            (\<lfloor>real (length (filter_stat_stages st time available_songs artist_list f))
                * max 0 (min 100 (remove_recents_percentage f)) / 100\<rfloor>
             + remove_recents_amount f))"
proof (intro conjI impI)
  show clamped: "filter_remove_recent st time available_songs artist_list f =
     \<lfloor>real (length (filter_stat_stages st time available_songs artist_list f))
         * max 0 (min 100 (remove_recents_percentage f)) / 100\<rfloor>
     + remove_recents_amount f"
    by (simp only: filter_remove_recent_def get_percentage_of_list_clamped)
  show "filter_remove_recent st time available_songs artist_list f =
          \<lfloor>real (length (filter_stat_stages st time available_songs artist_list f))
              * remove_recents_percentage f / 100\<rfloor>
          + remove_recents_amount f"
    if "0 \<le> remove_recents_percentage f \<and> remove_recents_percentage f \<le> 100"
    using that by (simp add: filter_remove_recent_def get_percentage_of_list_floor)
  show "wf_intelligence_filter st time available_songs previous_songs play_next artist_list (Some f)
        = wf_intelligence_remove_recents st
            (filter_stat_stages st time available_songs artist_list f) previous_songs play_next
            (\<lfloor>real (length (filter_stat_stages st time available_songs artist_list f))
                * max 0 (min 100 (remove_recents_percentage f)) / 100\<rfloor>
             + remove_recents_amount f)"
    if "available_songs \<noteq> []"
    using that by (simp add: wf_intelligence_filter_def clamped)
qed

lemma example_store_simps:
  "wf_song_get_status example_library_store song =
     (if 100 \<le> song \<and> song < 110 then WF_SONG_AVAILABLE else WF_SONG_STATUS_UNKNOWN)"
  "wf_song_get_artist_hash example_library_store song = 0"
  "wf_song_get_rating example_library_store song =
     (if 100 \<le> song \<and> song < 110 then (if song = 103 then 10 else 80) else 0)"
  "wf_song_get_last_played example_library_store song =
     (if 100 \<le> song \<and> song < 110 then 1000 + int song else 0)"
  "wf_song_is_valid example_library_store song = (100 \<le> song \<and> song < 110)"
  by (simp_all add: example_library_store_def example_song_def wf_song_get_status_def
        wf_song_get_artist_hash_def song_artist_hash_def wf_song_get_rating_def
        wf_song_get_last_played_def wf_song_is_valid_def)

lemma example_filtered:
  "filter_by_stats_filtered example_library_store time
     (example_filter\<lparr>remove_recents_percentage := p\<rparr>) song =
     (wf_song_get_rating example_library_store song < 50)"
  by (simp add: filter_by_stats_filtered_def example_filter_def example_store_simps
        wf_intelligence_use_rating_filter_def wf_intelligence_use_score_filter_def
        wf_intelligence_use_playcount_filter_def wf_intelligence_use_skipcount_filter_def
        wf_intelligence_use_lastplayed_filter_def wf_stats_rating_is_valid_def stat_consts Let_def)

lemma example_stat_stages_percentage:
  "filter_stat_stages example_library_store time example_library []
     (example_filter\<lparr>remove_recents_percentage := p\<rparr>) =
     [100, 101, 102, 104, 105, 106, 107, 108, 109]"
  by (simp add: filter_stat_stages_def wf_intelligence_remove_invalid_songs_def
        wf_intelligence_remove_songs_with_artists_def wf_intelligence_filter_by_stats_def
        example_filtered example_store_simps example_library_def)

lemma example_stat_stages:
  "filter_stat_stages example_library_store time example_library [] example_filter =
     [100, 101, 102, 104, 105, 106, 107, 108, 109]"
  using example_stat_stages_percentage [of time 50] by (simp add: example_filter_def)

lemma example_sort_compare:
  "wf_intelligence_sort_compare example_library_store a b =
     (if 100 \<le> a \<and> a < 110 then (if 100 \<le> b \<and> b < 110
         then (if a > b then - 1 else if a < b then 1 else 0) else - 1)
      else (if 100 \<le> b \<and> b < 110 then 1 else 0))"
  by (simp add: wf_intelligence_sort_compare_def example_store_simps Let_def)

lemma example_remove_recents:
  "wf_intelligence_remove_recents example_library_store
     [100, 101, 102, 104, 105, 106, 107, 108, 109] [] [] 4 = [100, 101, 102, 104, 105]"
  by (simp add: wf_intelligence_remove_recents_def example_sort_compare example_store_simps)

text \<open>
  The example of the specification: of ten songs one falls to the rating filter, and 50
  percent of the nine left, rounded down, is 4; the four songs played last are removed.
\<close>

theorem C1_recency_amount_after_earlier_stages_witness:
  "0 \<le> remove_recents_percentage example_filter
   \<and> remove_recents_percentage example_filter \<le> 100
   \<and> remove_recents_percentage example_filter = 50 \<and> remove_recents_amount example_filter = 0
   \<and> length example_library = 10
   \<and> \<lfloor>real (length example_library) * remove_recents_percentage example_filter / 100\<rfloor> = 5
   \<and> length (filter_stat_stages example_library_store 0 example_library [] example_filter) = 9
   \<and> filter_remove_recent example_library_store 0 example_library [] example_filter = 4
   \<and> wf_intelligence_filter example_library_store 0 example_library [] [] [] (Some example_filter)
       = [100, 101, 102, 104, 105]"
proof -
  have p: "0 \<le> remove_recents_percentage example_filter"
       "remove_recents_percentage example_filter \<le> 100"
    by (simp_all add: example_filter_def)
  have f: "remove_recents_percentage example_filter = 50" "remove_recents_amount example_filter = 0"
    by (simp_all add: example_filter_def)
  have n: "example_library \<noteq> []" "length example_library = 10"
    by (simp_all add: example_library_def)
  have fl: "\<lfloor>9 * 50 / 100 :: real\<rfloor> = (4::int)"
    by (intro floor_unique) simp_all
  from C1_recency_amount_after_earlier_stages
         [of example_library_store 0 example_library "[]" example_filter "[]" "[]"] n(1) p
  have "filter_remove_recent example_library_store 0 example_library [] example_filter = 4"
    and "wf_intelligence_filter example_library_store 0 example_library [] [] [] (Some example_filter)
       = [100, 101, 102, 104, 105]"
    by (simp_all add: example_stat_stages f fl example_remove_recents)
  with p f n show ?thesis
    by (simp add: example_stat_stages)
qed

text \<open>
  Claim C1 as it was stated fails for a percentage outside the range from 0 to 100. Nine
  songs are left after the first stages: at 150 percent the amount is 9, where the formula
  gives 13, and at \<open>- 50\<close> percent it is 0, where the formula gives \<open>- 5\<close>.
\<close>

theorem C1_percentage_out_of_range_counterexample:
  "filter_remove_recent example_library_store 0 example_library []
     (example_filter\<lparr>remove_recents_percentage := 150\<rparr>) = 9
   \<and> \<lfloor>real (length (filter_stat_stages example_library_store 0 example_library []
                        (example_filter\<lparr>remove_recents_percentage := 150\<rparr>))) * 150 / 100\<rfloor>
       + remove_recents_amount (example_filter\<lparr>remove_recents_percentage := 150\<rparr>) = 13
   \<and> filter_remove_recent example_library_store 0 example_library []
       (example_filter\<lparr>remove_recents_percentage := - 50\<rparr>) = 0
   \<and> \<lfloor>real (length (filter_stat_stages example_library_store 0 example_library []
                        (example_filter\<lparr>remove_recents_percentage := - 50\<rparr>))) * (- 50) / 100\<rfloor>
       + remove_recents_amount (example_filter\<lparr>remove_recents_percentage := - 50\<rparr>) = - 5"
proof -
  have "\<lfloor>9 * 150 / 100 :: real\<rfloor> = (13::int)" "\<lfloor>9 * (- 50) / 100 :: real\<rfloor> = (- 5::int)"
    by (intro floor_unique; simp)+
  then show ?thesis
    by (simp only: filter_remove_recent_def example_stat_stages_percentage)
       (simp add: wf_intelligence_get_percentage_of_list_def example_filter_def)
qed

subsection \<open>The entries of a song\<close>

lemmas entries_defs = song_entries_def entries_add_rating_def entries_add_score_def
  entries_add_playcount_def entries_add_skipcount_def entries_add_lastplayed_def
  wf_song_get_rating_def wf_song_get_score_def wf_stats_rating_is_valid_def
  wf_stats_score_is_valid_def gint_of_gdouble_def container_zero_def

text \<open>The square root curve at one year: 99 on the plain curve, 1 on the inverted one.\<close>

lemma sqrt_one_year_bounds: "5560 \<le> sqrt 31536000" "sqrt 31536000 < 5616"
proof -
  show "5560 \<le> sqrt 31536000"
    by (rule real_le_rsqrt) simp
  show "sqrt 31536000 < 5616"
    by (rule real_less_lsqrt) simp_all
qed

lemma entries_time_since_one_year: "wf_intelligence_get_entries_time_since one_year = 99"
proof -
  have "\<lfloor>100 * sqrt 31536000 / 5616\<rfloor> = (99::int)"
    using sqrt_one_year_bounds by (intro floor_unique) simp_all
  moreover have "0 \<le> 100 * sqrt 31536000 / 5616" by simp
  ultimately show ?thesis
    by (simp add: wf_intelligence_get_entries_time_since_def
          wf_intelligence_calculate_entries_with_sqrt_def one_year_def MAX_SONG_ENTRIES_def
          gint_of_gdouble_def)
qed

lemma entries_time_since_inverted_one_year:
  "wf_intelligence_get_entries_time_since_inverted one_year = 1"
proof -
  have "\<lceil>- (100 * sqrt 31536000 / 5616)\<rceil> = (- 99::int)"
    using sqrt_one_year_bounds by (intro ceiling_unique) simp_all
  moreover have "\<not> 0 \<le> - (100 * sqrt 31536000 / 5616)"
    using sqrt_one_year_bounds by simp
  ultimately show ?thesis
    by (simp add: wf_intelligence_get_entries_time_since_inverted_def
          wf_intelligence_calculate_entries_with_sqrt_def one_year_def MAX_SONG_ENTRIES_def
          gint_of_gdouble_def)
qed

lemma time_compare_one_year:
  "wf_utils_time_compare 1000 31537001 = one_year + 1"
  "wf_utils_time_compare 1000 31537000 = one_year"
  by (simp_all add: wf_utils_time_compare_def one_year_def)

text \<open>
  Claim C5, as amended: for a song with a valid last played value whose time since last
  played exceeds one year, the last played block with the plain (not inverted) curve adds
  \<open>100 * lastplayed_factor\<close>, however far past one year the song is; and the two curve
  functions themselves return above one year what they return at one year.
\<close>

theorem C5_lastplayed_above_one_year:
  assumes "wf_stats_lastplayed_is_valid (wf_song_get_last_played st song)"
    and "wf_utils_time_compare (wf_song_get_last_played st song) current_time > one_year"
    and "\<not> favor_low_lastplayed c"
  shows "entries_add_lastplayed c current_time st song entries
           = entries + 100 * lastplayed_factor c
       \<and> wf_intelligence_get_entries_time_since
           (wf_utils_time_compare (wf_song_get_last_played st song) current_time)
           = wf_intelligence_get_entries_time_since one_year
       \<and> wf_intelligence_get_entries_time_since_inverted
           (wf_utils_time_compare (wf_song_get_last_played st song) current_time)
           = wf_intelligence_get_entries_time_since_inverted one_year"
  using assms
  by (simp add: entries_add_lastplayed_def lastplayed_x_def Let_def
        wf_intelligence_get_entries_time_since_def
        wf_intelligence_get_entries_time_since_inverted_def)

theorem C5_lastplayed_above_one_year_witness:
  "wf_stats_lastplayed_is_valid (wf_song_get_last_played example_lastplayed_store 0)
   \<and> wf_utils_time_compare (wf_song_get_last_played example_lastplayed_store 0)
        (1000 + 2 * one_year) > one_year
   \<and> \<not> favor_low_lastplayed example_lastplayed_container
   \<and> entries_add_lastplayed example_lastplayed_container (1000 + 2 * one_year)
        example_lastplayed_store 0 0 = 100000"
  using C5_lastplayed_above_one_year
          [of example_lastplayed_store 0 "1000 + 2 * one_year" example_lastplayed_container 0]
  by (simp add: example_lastplayed_container_def example_lastplayed_store_def example_song_def
        container_zero_def wf_song_get_last_played_def wf_stats_lastplayed_is_valid_def
        wf_utils_time_compare_def stat_consts one_year_def)

text \<open>
  Claim C5 as it was stated fails on both curves. The song was last played at time 1000.
  One second past one year the block adds 100000 on either curve; at one year exactly it
  adds 99000 on the plain curve and 1000 on the inverted one.
\<close>

theorem C5_lastplayed_one_year_counterexample:
  "entries_add_lastplayed example_lastplayed_container 31537001
     example_lastplayed_store 0 0 = 100000
   \<and> entries_add_lastplayed example_lastplayed_container 31537000
     example_lastplayed_store 0 0 = 99000
   \<and> entries_add_lastplayed (example_lastplayed_container\<lparr>favor_low_lastplayed := True\<rparr>)
     31537001 example_lastplayed_store 0 0 = 100000
   \<and> entries_add_lastplayed (example_lastplayed_container\<lparr>favor_low_lastplayed := True\<rparr>)
     31537000 example_lastplayed_store 0 0 = 1000
   \<and> wf_utils_time_compare (wf_song_get_last_played example_lastplayed_store 0) 31537001
       = one_year + 1
   \<and> wf_utils_time_compare (wf_song_get_last_played example_lastplayed_store 0) 31537000
       = one_year"
  by (simp add: entries_add_lastplayed_def lastplayed_x_def Let_def
        entries_time_since_one_year entries_time_since_inverted_one_year
        example_lastplayed_container_def example_lastplayed_store_def example_song_def
        container_zero_def wf_song_get_last_played_def wf_stats_lastplayed_is_valid_def
        time_compare_one_year stat_consts)

subsection \<open>The list of weighted entries\<close>

lemma gint_wrap_add: "gint_wrap (gint_wrap a + b) = gint_wrap (a + b)"
proof -
  have shift: "gint_wrap a + b + 2147483648 = (a + 2147483648) mod 4294967296 + b"
    by (simp add: gint_wrap_def)
  have "(gint_wrap a + b + 2147483648) mod 4294967296
          = ((a + 2147483648) mod 4294967296 + b) mod 4294967296"
    by (simp only: shift)
  also have "\<dots> = (a + 2147483648 + b) mod 4294967296"
    by (rule mod_add_left_eq)
  also have "a + 2147483648 + b = a + b + 2147483648"
    by simp
  finally have "(gint_wrap a + b + 2147483648) mod 4294967296 - 2147483648
                  = (a + b + 2147483648) mod 4294967296 - 2147483648"
    by (rule arg_cong)
  then show ?thesis
    by (simp only: gint_wrap_def [of "gint_wrap a + b"] gint_wrap_def [of "a + b"])
qed

lemma gint_wrap_in_range: "0 \<le> x \<Longrightarrow> x \<le> G_MAXINT \<Longrightarrow> gint_wrap x = x"
  by (simp add: gint_wrap_def G_MAXINT_def)

text \<open>
  The loop appends, for each song in turn, nothing when its entries are negative and one
  node otherwise, and adds the entries of the nodes to the sum, wrapping around.
\<close>

lemma calculate_song_entries_loop_eq:
  "calculate_song_entries_loop c t st song_list dlist full_sum =
     (dlist @ List.map_filter
        (\<lambda>song. if song_entries c t st song < 0 then None
                else Some (song, if song_entries c t st song = 0 then 1
                                 else song_entries c t st song)) song_list,
      if List.map_filter
        (\<lambda>song. if song_entries c t st song < 0 then None
                else Some (song, if song_entries c t st song = 0 then 1
                                 else song_entries c t st song)) song_list = [] then full_sum
      else gint_wrap (full_sum + sum_list (map snd (List.map_filter
        (\<lambda>song. if song_entries c t st song < 0 then None
                else Some (song, if song_entries c t st song = 0 then 1
                                 else song_entries c t st song)) song_list))))"
proof (induction song_list arbitrary: dlist full_sum)
  case Nil
  then show ?case by simp
next
  case (Cons song song_list)
  show ?case
    by (simp add: Cons.IH Let_def wf_d_list_add_def gint_wrap_add add.assoc)
qed

text \<open>The sum of the nodes' entries, as a sum over the songs.\<close>

lemma sum_list_nodes:
  "sum_list (map snd (List.map_filter
        (\<lambda>song. if song_entries c t st song < 0 then None
                else Some (song, if song_entries c t st song = 0 then 1
                                 else song_entries c t st song)) song_list))
   = sum_list (map (\<lambda>song. if song_entries c t st song < 0 then 0
                            else max 1 (song_entries c t st song)) song_list)"
  by (induction song_list) (simp_all add: max_def)

lemma calculate_song_entries_nodes:
  "snd (wf_intelligence_calculate_song_entries c t st song_list) =
     (if 0 < gint_wrap (sum_list (map (\<lambda>song. if song_entries c t st song < 0 then 0
                                               else max 1 (song_entries c t st song)) song_list))
      then List.map_filter
        (\<lambda>song. if song_entries c t st song < 0 then None
                else Some (song, if song_entries c t st song = 0 then 1
                                 else song_entries c t st song)) song_list
      else [])"
  (is "_ = (if 0 < gint_wrap ?total then ?nodes else [])")
proof (cases "?nodes = []")
  case True
  then have "?total = 0"
    using sum_list_nodes [of c t st song_list] by simp
  with True show ?thesis
    by (simp add: wf_intelligence_calculate_song_entries_def calculate_song_entries_loop_eq
          gint_wrap_def)
next
  case False
  then have "song_list \<noteq> []"
    by auto
  with False show ?thesis
    by (simp add: wf_intelligence_calculate_song_entries_def calculate_song_entries_loop_eq
          sum_list_nodes)
qed

lemma sum_list_entries_nonneg:
  "0 \<le> sum_list (map (\<lambda>song. if song_entries c t st song < 0 then 0
                                else max 1 (song_entries c t st song)) song_list)"
  by (rule sum_list_nonneg) auto

lemma sum_list_entries_pos:
  assumes "song \<in> set song_list" and "0 \<le> song_entries c t st song"
  shows "0 < sum_list (map (\<lambda>song. if song_entries c t st song < 0 then 0
                                else max 1 (song_entries c t st song)) song_list)"
  using assms
proof (induction song_list)
  case Nil
  then show ?case by simp
next
  case (Cons a song_list)
  have rest: "0 \<le> sum_list (map (\<lambda>song. if song_entries c t st song < 0 then 0
                                else max 1 (song_entries c t st song)) song_list)"
    by (rule sum_list_entries_nonneg)
  show ?case
  proof (cases "a = song")
    case True
    with Cons.prems(2) rest show ?thesis by (simp add: max_def)
  next
    case False
    with Cons.prems have "song \<in> set song_list" by simp
    with Cons.IH Cons.prems(2) have "0 < sum_list (map (\<lambda>song. if song_entries c t st song < 0 then 0
                                else max 1 (song_entries c t st song)) song_list)"
      by simp
    moreover have "0 \<le> (if song_entries c t st a < 0 then 0 else max 1 (song_entries c t st a))"
      by (simp add: max_def)
    ultimately show ?thesis by simp
  qed
qed

text \<open>
  Claim C6, as amended. \<open>song_entries\<close> is the value the \<^verbatim>\<open>gint\<close> accumulator
  \<^verbatim>\<open>entries\<close> holds after the five blocks (the sum with the score is cut towards
  zero). In the list \<^verbatim>\<open>wf_intelligence_calculate_song_entries\<close> returns, a song for
  which this value is negative does not occur, and every value stored is at least 1. A
  song for which it is zero occurs with the value 1 whenever the entry counts of the round
  add up to at most \<^verbatim>\<open>G_MAXINT\<close>, and more generally whenever the list returned is not
  empty.
\<close>

theorem C6_disqualified_absent_entries_positive:
  "(\<forall>song \<in> set song_list. song_entries c t st song < 0 \<longrightarrow>
       song \<notin> fst ` set (snd (wf_intelligence_calculate_song_entries c t st song_list)))
   \<and> (\<forall>(song, entries) \<in> set (snd (wf_intelligence_calculate_song_entries c t st song_list)).
       1 \<le> entries)
   \<and> (sum_list (map (\<lambda>song. if song_entries c t st song < 0 then 0
                              else max 1 (song_entries c t st song)) song_list) \<le> G_MAXINT \<longrightarrow>
       (\<forall>song \<in> set song_list. song_entries c t st song = 0 \<longrightarrow>
          (song, 1) \<in> set (snd (wf_intelligence_calculate_song_entries c t st song_list))))
   \<and> (snd (wf_intelligence_calculate_song_entries c t st song_list) \<noteq> [] \<longrightarrow>
       (\<forall>song \<in> set song_list. song_entries c t st song = 0 \<longrightarrow>
          (song, 1) \<in> set (snd (wf_intelligence_calculate_song_entries c t st song_list))))"
proof (intro conjI impI ballI)
  fix song
  assume "song \<in> set song_list" and "song_entries c t st song < 0"
  then show "song \<notin> fst ` set (snd (wf_intelligence_calculate_song_entries c t st song_list))"
    unfolding calculate_song_entries_nodes
    by (auto simp add: List.map_filter_def image_iff split: if_splits)
next
  fix node
  assume "node \<in> set (snd (wf_intelligence_calculate_song_entries c t st song_list))"
  then show "case node of (song, entries) \<Rightarrow> 1 \<le> entries"
    unfolding calculate_song_entries_nodes
    by (auto simp add: List.map_filter_def split: if_splits)
next
  fix song
  assume le: "sum_list (map (\<lambda>song. if song_entries c t st song < 0 then 0
                              else max 1 (song_entries c t st song)) song_list) \<le> G_MAXINT"
    and song: "song \<in> set song_list" and zero: "song_entries c t st song = 0"
  from song zero have "0 < sum_list (map (\<lambda>song. if song_entries c t st song < 0 then 0
                              else max 1 (song_entries c t st song)) song_list)"
    by (intro sum_list_entries_pos [of song]) simp_all
  with le have "0 < gint_wrap (sum_list (map (\<lambda>song. if song_entries c t st song < 0 then 0
                              else max 1 (song_entries c t st song)) song_list))"
    by (simp add: gint_wrap_in_range)
  with song zero
  show "(song, 1) \<in> set (snd (wf_intelligence_calculate_song_entries c t st song_list))"
    unfolding calculate_song_entries_nodes
    by (auto simp add: List.map_filter_def image_iff)
next
  fix song
  assume "snd (wf_intelligence_calculate_song_entries c t st song_list) \<noteq> []"
    and "song \<in> set song_list" and "song_entries c t st song = 0"
  then show "(song, 1) \<in> set (snd (wf_intelligence_calculate_song_entries c t st song_list))"
    unfolding calculate_song_entries_nodes
    by (auto simp add: List.map_filter_def image_iff split: if_splits)
qed

lemma example_disqualify_entries:
  "song_entries example_disqualify_container 0 example_disqualify_store 10 = - 5000"
  "song_entries example_disqualify_container 0 example_disqualify_store 11 = 0"
  "song_entries example_disqualify_container 0 example_disqualify_store 12 = 50000"
  by (simp_all add: entries_defs stat_consts example_disqualify_container_def
        example_disqualify_store_def example_song_def Let_def)

theorem C6_disqualified_absent_entries_positive_witness:
  "song_entries example_disqualify_container 0 example_disqualify_store 10 < 0
   \<and> song_entries example_disqualify_container 0 example_disqualify_store 11 = 0
   \<and> sum_list (map (\<lambda>song. if song_entries example_disqualify_container 0
                                  example_disqualify_store song < 0 then 0
                            else max 1 (song_entries example_disqualify_container 0
                                          example_disqualify_store song)) [10, 11, 12])
       \<le> G_MAXINT
   \<and> 10 \<notin> fst ` set (snd (wf_intelligence_calculate_song_entries example_disqualify_container 0
                            example_disqualify_store [10, 11, 12]))
   \<and> (11, 1) \<in> set (snd (wf_intelligence_calculate_song_entries example_disqualify_container 0
                            example_disqualify_store [10, 11, 12]))
   \<and> snd (wf_intelligence_calculate_song_entries example_disqualify_container 0
             example_disqualify_store [10, 11, 12]) = [(11, 1), (12, 50000)]"
  using C6_disqualified_absent_entries_positive
          [of "[10, 11, 12]" example_disqualify_container 0 example_disqualify_store]
  by (simp add: example_disqualify_entries wf_intelligence_calculate_song_entries_def
        wf_d_list_add_def gint_wrap_def G_MAXINT_def Let_def)

lemma example_truncated_entries:
  "entries_add_rating example_disqualify_container example_disqualify_store 13 0 = - 5000"
  "wf_song_get_score example_disqualify_store 13
     * real_of_int (score_factor example_disqualify_container) = 9999 / 2"
  "song_entries example_disqualify_container 0 example_disqualify_store 13 = 0"
proof -
  have half: "\<lceil>- (1 / 2) :: real\<rceil> = 0"
    by (rule ceiling_unique) simp_all
  show "entries_add_rating example_disqualify_container example_disqualify_store 13 0 = - 5000"
    and "wf_song_get_score example_disqualify_store 13
           * real_of_int (score_factor example_disqualify_container) = 9999 / 2"
    and "song_entries example_disqualify_container 0 example_disqualify_store 13 = 0"
    by (simp_all add: entries_defs stat_consts example_disqualify_container_def
          example_disqualify_store_def example_song_def Let_def half)
qed

lemma example_overflow_entries:
  "song < 2148 \<Longrightarrow> song_entries example_overflow_container 0 example_overflow_store song = 1000000"
  "song_entries example_overflow_container 0 example_overflow_store 2148 = 0"
  by (simp_all add: entries_defs stat_consts example_overflow_container_def
        example_overflow_store_def example_song_def Let_def)

lemma example_overflow_sum:
  "sum_list (map (\<lambda>song. if song_entries example_overflow_container 0 example_overflow_store song < 0
                          then 0
                          else max 1 (song_entries example_overflow_container 0
                                        example_overflow_store song)) example_overflow_library)
   = 2148000001"
  (is "sum_list (map ?h _) = _")
proof -
  have split: "example_overflow_library = [0..<2148] @ [2148]"
    using upt_Suc_append [of 0 2148] by (simp add: example_overflow_library_def)
  have "map ?h [0..<2148] = map (\<lambda>song. 1000000) [0..<2148]"
    by (rule map_ext) (simp add: example_overflow_entries)
  also have "\<dots> = replicate 2148 1000000"
    by (simp only: map_replicate_const length_upt; simp)
  finally have "sum_list (map ?h [0..<2148]) = 2148000000"
    by (simp only: sum_list_replicate; simp)
  moreover have "?h 2148 = 1"
    by (simp add: example_overflow_entries)
  ultimately show ?thesis
    by (simp only: split map_append sum_list_append list.map sum_list.Cons sum_list.Nil; simp)
qed

lemma example_overflow_result:
  "snd (wf_intelligence_calculate_song_entries example_overflow_container 0
          example_overflow_store example_overflow_library) = []"
  by (simp only: calculate_song_entries_nodes example_overflow_sum) (simp add: gint_wrap_def)

text \<open>
  Claim C6 as it was stated fails in two ways. The contributions of song 13 (rating
  \<open>- 5000\<close>, score \<open>4999.5\<close>) add up to \<open>- 0.5\<close>, the accumulator holds 0, and the song is
  in the list with the value 1. And in the library of 2149 songs the entry counts add up
  to 2148000001, \<^verbatim>\<open>full_sum\<close> wraps around to a negative number, and the list is
  freed: song 2148, whose entries are zero, is in no list.
\<close>

theorem C6_entries_counterexample:
  "real_of_int (entries_add_rating example_disqualify_container example_disqualify_store 13 0)
     + wf_song_get_score example_disqualify_store 13
         * real_of_int (score_factor example_disqualify_container) = - 1 / 2
   \<and> song_entries example_disqualify_container 0 example_disqualify_store 13 = 0
   \<and> snd (wf_intelligence_calculate_song_entries example_disqualify_container 0
             example_disqualify_store [13]) = [(13, 1)]
   \<and> 2148 \<in> set example_overflow_library
   \<and> song_entries example_overflow_container 0 example_overflow_store 2148 = 0
   \<and> snd (wf_intelligence_calculate_song_entries example_overflow_container 0
             example_overflow_store example_overflow_library) = []"
proof -
  have "snd (wf_intelligence_calculate_song_entries example_disqualify_container 0
               example_disqualify_store [13]) = [(13, 1)]"
    by (simp add: wf_intelligence_calculate_song_entries_def example_truncated_entries
          wf_d_list_add_def gint_wrap_def Let_def)
  moreover have "2148 \<in> set example_overflow_library"
    by (simp only: example_overflow_library_def set_upt; simp)
  ultimately show ?thesis
    by (simp add: example_truncated_entries example_overflow_entries example_overflow_result)
qed

subsection \<open>The weighted draw\<close>

lemma pick_winner_loop_first:
  assumes "\<forall>(song, entries) \<in> set list. 0 < entries"
    and "i < length list"
    and "rand \<le> sum0 + sum_list (map snd (take (Suc i) list))"
    and "\<forall>j < i. sum0 + sum_list (map snd (take (Suc j) list)) < rand"
  shows "pick_winner_loop list rand sum0 = Some (fst (list ! i))"
  using assms
proof (induction list arbitrary: sum0 i)
  case Nil
  then show ?case by simp
next
  case (Cons node list)
  obtain song entries where node: "node = (song, entries)" by (cases node)
  with Cons.prems(1) have pos: "0 < entries" by simp
  show ?case
  proof (cases i)
    case 0
    with Cons.prems(3) node pos show ?thesis by simp
  next
    case (Suc k)
    with Cons.prems(4) have "sum0 + sum_list (map snd (take (Suc 0) (node # list))) < rand"
      by blast
    with node have below: "sum0 + entries < rand" by simp
    have "pick_winner_loop list rand (sum0 + entries) = Some (fst (list ! k))"
    proof (rule Cons.IH)
      show "\<forall>(song, entries) \<in> set list. 0 < entries" using Cons.prems(1) by simp
      show "k < length list" using Cons.prems(2) Suc by simp
      show "rand \<le> sum0 + entries + sum_list (map snd (take (Suc k) list))"
        using Cons.prems(3) Suc node by simp
      show "\<forall>j < k. sum0 + entries + sum_list (map snd (take (Suc j) list)) < rand"
      proof (intro allI impI)
        fix j assume "j < k"
        then have "Suc j < i" using Suc by simp
        with Cons.prems(4) have "sum0 + sum_list (map snd (take (Suc (Suc j)) (node # list))) < rand"
          by blast
        with node show "sum0 + entries + sum_list (map snd (take (Suc j) list)) < rand" by simp
      qed
    qed
    with node pos below Suc show ?thesis by simp
  qed
qed

lemma pick_winner_loop_Some:
  assumes "\<forall>(song, entries) \<in> set list. 0 < entries"
    and "sum0 < rand" and "rand \<le> sum0 + sum_list (map snd list)"
  shows "pick_winner_loop list rand sum0 \<noteq> None"
  using assms
proof (induction list arbitrary: sum0)
  case Nil
  then show ?case by simp
next
  case (Cons node list)
  obtain song entries where node: "node = (song, entries)" by (cases node)
  with Cons.prems(1) have pos: "0 < entries" by simp
  show ?case
  proof (cases "rand \<le> sum0 + entries")
    case True
    with node pos show ?thesis by simp
  next
    case False
    then have "pick_winner_loop list rand (sum0 + entries) \<noteq> None"
      using Cons.prems node by (intro Cons.IH) simp_all
    with False node pos show ?thesis by simp
  qed
qed

lemma wf_intelligence_random_range:
  "0 < upper \<Longrightarrow>
     1 \<le> wf_intelligence_random v 1 upper \<and> wf_intelligence_random v 1 upper \<le> upper"
proof -
  assume up: "0 < upper"
  then have "int v mod upper < upper" and "0 \<le> int v mod upper"
    by simp_all
  then show ?thesis
    by (simp add: wf_intelligence_random_def)
qed

text \<open>
  Claim C2: for a list of positive entry counts whose sum is the total of the container,
  \<^verbatim>\<open>wf_intelligence_pick_winner\<close> returns no song when the total is not positive;
  otherwise the number drawn lies between 1 and the total, a song is returned, and it is the
  song of the first node at which the running sum of the entries reaches the number drawn.
\<close>

theorem C2_pick_winner_first_reaching_draw:
  assumes "\<forall>(song, entries) \<in> set list. 0 < entries"
    and "total_entries c = sum_list (map snd list)"
  shows "(total_entries c \<le> 0 \<longrightarrow> wf_intelligence_pick_winner c list v = None)
       \<and> (0 < total_entries c \<longrightarrow>
            1 \<le> wf_intelligence_random v 1 (total_entries c)
            \<and> wf_intelligence_random v 1 (total_entries c) \<le> total_entries c
            \<and> wf_intelligence_pick_winner c list v \<noteq> None
            \<and> (\<forall>i < length list.
                  wf_intelligence_random v 1 (total_entries c)
                    \<le> sum_list (map snd (take (Suc i) list))
                  \<and> (\<forall>j < i. sum_list (map snd (take (Suc j) list))
                               < wf_intelligence_random v 1 (total_entries c))
                  \<longrightarrow> wf_intelligence_pick_winner c list v = Some (fst (list ! i))))"
proof (intro conjI impI allI)
  assume "total_entries c \<le> 0"
  then show "wf_intelligence_pick_winner c list v = None"
    by (simp add: wf_intelligence_pick_winner_def)
next
  assume pos: "0 < total_entries c"
  let ?r = "wf_intelligence_random v 1 (total_entries c)"
  from pos show "1 \<le> ?r" and "?r \<le> total_entries c"
    using wf_intelligence_random_range by simp_all
  from pos assms(2) have ne: "list \<noteq> []" by auto
  have loop: "wf_intelligence_pick_winner c list v = pick_winner_loop list ?r 0"
    using pos ne by (simp add: wf_intelligence_pick_winner_def)
  have "pick_winner_loop list ?r 0 \<noteq> None"
    using assms pos wf_intelligence_random_range [of "total_entries c" v]
    by (intro pick_winner_loop_Some) simp_all
  with loop show "wf_intelligence_pick_winner c list v \<noteq> None" by simp
  fix i
  assume "i < length list"
    and "?r \<le> sum_list (map snd (take (Suc i) list))
         \<and> (\<forall>j < i. sum_list (map snd (take (Suc j) list)) < ?r)"
  then have "pick_winner_loop list ?r 0 = Some (fst (list ! i))"
    using assms(1) by (intro pick_winner_loop_first) simp_all
  with loop show "wf_intelligence_pick_winner c list v = Some (fst (list ! i))" by simp
qed

lemma example_rated_determine_modifiers:
  "wf_intelligence_determine_modifiers (Some example_preferences) = (True, example_rated_modifiers)"
  by (simp add: wf_intelligence_determine_modifiers_def example_preferences_def
        example_rated_modifiers_def container_zero_def gint_of_gdouble_def MULTIPLIER_RATING_def
        Let_def)

lemma example_rated_song_entries:
  "song_entries example_rated_modifiers 0 example_rated_store 20 = 80000"
  "song_entries example_rated_modifiers 0 example_rated_store 21 = 20000"
  "song_entries example_rated_modifiers 0 example_rated_store 22 = 100000"
  by (simp_all add: entries_defs stat_consts example_rated_modifiers_def
        example_rated_store_def example_song_def Let_def)

lemma example_rated_calculate:
  "wf_intelligence_calculate_song_entries example_rated_modifiers 0
     example_rated_store [20, 21, 22] = (example_rated_container, example_rated_entries)"
  by (simp add: wf_intelligence_calculate_song_entries_def example_rated_song_entries
        wf_d_list_add_def gint_wrap_def example_rated_entries_def example_rated_container_def
        Let_def)

text \<open>
  The end-to-end example: the entries are 80000, 20000 and 100000, the total is 200000, and
  the number 150000 (drawn when \<^verbatim>\<open>g_rand_int\<close> returns 149999) selects song 22, the
  one rated 100; so does the number 150001, drawn when it returns 150000.
\<close>

theorem C2_pick_winner_first_reaching_draw_witness:
  "list_all (\<lambda>(song, entries). 0 < entries) example_rated_entries
   \<and> total_entries example_rated_container = sum_list (map snd example_rated_entries)
   \<and> wf_intelligence_calculate_song_entries example_rated_modifiers 0
        example_rated_store [20, 21, 22] = (example_rated_container, example_rated_entries)
   \<and> wf_intelligence_random 149999 1 (total_entries example_rated_container) = 150000
   \<and> wf_intelligence_pick_winner example_rated_container example_rated_entries 149999 = Some 22
   \<and> wf_intelligence_get_song example_rated_store 0 149999 [20, 21, 22] (Some example_preferences)
       = Some 22
   \<and> wf_intelligence_pick_winner example_rated_container example_rated_entries 150000 = Some 22"
proof -
  let ?c = example_rated_container and ?l = example_rated_entries
  let ?r = "wf_intelligence_random 149999 1 (total_entries ?c)"
  have h1: "\<forall>(song, entries) \<in> set ?l. 0 < entries"
    by (simp add: example_rated_entries_def)
  have h2: "total_entries ?c = sum_list (map snd ?l)"
    by (simp add: example_rated_entries_def example_rated_container_def)
  have pos: "0 < total_entries ?c"
    by (simp add: example_rated_container_def)
  have r: "?r = 150000"
    by (simp add: wf_intelligence_random_def example_rated_container_def)
  from C2_pick_winner_first_reaching_draw [OF h1 h2, of 149999] pos
  have "\<forall>i < length ?l. ?r \<le> sum_list (map snd (take (Suc i) ?l))
            \<and> (\<forall>j < i. sum_list (map snd (take (Suc j) ?l)) < ?r)
          \<longrightarrow> wf_intelligence_pick_winner ?c ?l 149999 = Some (fst (?l ! i))"
    by blast
  then have "2 < length ?l \<longrightarrow> ?r \<le> sum_list (map snd (take (Suc 2) ?l))
            \<and> (\<forall>j < 2. sum_list (map snd (take (Suc j) ?l)) < ?r)
          \<longrightarrow> wf_intelligence_pick_winner ?c ?l 149999 = Some (fst (?l ! 2))"
    by blast
  moreover have "\<forall>j < 2. sum_list (map snd (take (Suc j) ?l)) < (150000::int)"
  proof (intro allI impI)
    fix j :: nat assume "j < 2"
    then have "j = 0 \<or> j = 1" by auto
    then show "sum_list (map snd (take (Suc j) ?l)) < (150000::int)"
      by (auto simp add: example_rated_entries_def)
  qed
  ultimately have win: "wf_intelligence_pick_winner ?c ?l 149999 = Some 22"
    by (simp add: r example_rated_entries_def)
  have song: "wf_intelligence_get_song example_rated_store 0 149999 [20, 21, 22]
          (Some example_preferences) = Some 22"
    by (simp add: wf_intelligence_get_song_def example_rated_determine_modifiers
          example_rated_calculate win)
  have next_draw: "wf_intelligence_pick_winner ?c ?l 150000 = Some 22"
    by (simp add: wf_intelligence_pick_winner_def wf_intelligence_random_def
          example_rated_entries_def example_rated_container_def)
  have h1': "list_all (\<lambda>(song, entries). 0 < entries) ?l"
    by (simp add: example_rated_entries_def)
  from h1' h2 r win song next_draw example_rated_calculate show ?thesis by simp
qed

end
